theory Spec2Isabelle
  imports Complex_Main
begin

section \<open>JavaScript strings and values\<close>

text \<open>
  The import pipeline lives in \<^verbatim>\<open>src/services/excelService.ts\<close>. Strings are modelled
  as \<^typ>\<open>string\<close> restricted to ASCII: \<^verbatim>\<open>toLowerCase\<close>, \<^verbatim>\<open>toUpperCase\<close>, \<^verbatim>\<open>trim\<close> and
  the regular-expression classes \<^verbatim>\<open>\d\<close>, \<^verbatim>\<open>\w\<close>, \<^verbatim>\<open>\S\<close> act on ASCII letters, digits
  and white space only. Numbers are exact rationals extended with NaN and the two
  infinities; rounding to binary64 is not modelled.
\<close>

definition upperChars :: string where
  "upperChars = ''ABCDEFGHIJKLMNOPQRSTUVWXYZ''"

definition lowerChars :: string where
  "lowerChars = ''abcdefghijklmnopqrstuvwxyz''"

definition toLowerChar :: "char \<Rightarrow> char" where
  "toLowerChar c = (case map_of (zip upperChars lowerChars) c of Some d \<Rightarrow> d | None \<Rightarrow> c)"

definition toUpperChar :: "char \<Rightarrow> char" where
  "toUpperChar c = (case map_of (zip lowerChars upperChars) c of Some d \<Rightarrow> d | None \<Rightarrow> c)"

definition toLowerCase :: "string \<Rightarrow> string" where
  "toLowerCase s = map toLowerChar s"

definition toUpperCase :: "string \<Rightarrow> string" where
  "toUpperCase s = map toUpperChar s"

definition isSpace :: "char \<Rightarrow> bool" where
  "isSpace c = (c \<in> set [CHR '' '', CHR 0x09, CHR 0x0A, CHR 0x0B, CHR 0x0C, CHR 0x0D])"

definition isDigit :: "char \<Rightarrow> bool" where
  "isDigit c = (c \<in> set ''0123456789'')"

definition isWordChar :: "char \<Rightarrow> bool" where
  "isWordChar c = (c \<in> set upperChars \<or> c \<in> set lowerChars \<or> isDigit c \<or> c = CHR ''_'')"

definition trimStart :: "string \<Rightarrow> string" where
  "trimStart s = dropWhile isSpace s"

definition trim :: "string \<Rightarrow> string" where
  "trim s = rev (dropWhile isSpace (rev (dropWhile isSpace s)))"

text \<open>\<^verbatim>\<open>hay.includes(needle)\<close>: \<open>needle\<close> occurs as a contiguous substring.\<close>

fun includes_str :: "string \<Rightarrow> string \<Rightarrow> bool" where
  "includes_str [] needle = (needle = [])"
| "includes_str (c # cs) needle = (take (length needle) (c # cs) = needle \<or> includes_str cs needle)"

text \<open>\<^verbatim>\<open>val.replace(/,/g, '')\<close>\<close>

definition stripCommas :: "string \<Rightarrow> string" where
  "stripCommas s = filter (\<lambda>c. c \<noteq> CHR '','') s"

text \<open>
  \<^verbatim>\<open>toTitleCase\<close>: every match of \<^verbatim>\<open>/\w\S*/g\<close> gets its first character upper-cased and
  the rest lower-cased; the text between matches is kept.
\<close>

function toTitleCase :: "string \<Rightarrow> string" where
  "toTitleCase [] = []"
| "toTitleCase (c # cs) =
     (if isWordChar c
      then toUpperChar c # toLowerCase (takeWhile (\<lambda>x. \<not> isSpace x) cs)
             @ toTitleCase (dropWhile (\<lambda>x. \<not> isSpace x) cs)
      else c # toTitleCase cs)"
  by pat_completeness auto
termination
  by (relation "measure length") (auto simp: le_imp_less_Suc length_dropWhile_le)

datatype jsnum = NaN | Fin rat | PosInf | NegInf

definition neg_num :: "jsnum \<Rightarrow> jsnum" where
  "neg_num x = (case x of NaN \<Rightarrow> NaN | Fin r \<Rightarrow> Fin (- r) | PosInf \<Rightarrow> NegInf | NegInf \<Rightarrow> PosInf)"

text \<open>\<^verbatim>\<open>Math.abs\<close>\<close>

definition abs_num :: "jsnum \<Rightarrow> jsnum" where
  "abs_num x = (case x of NaN \<Rightarrow> NaN | Fin r \<Rightarrow> Fin \<bar>r\<bar> | PosInf \<Rightarrow> PosInf | NegInf \<Rightarrow> PosInf)"

text \<open>\<^verbatim>\<open>amount > 0\<close>\<close>

definition positive_num :: "jsnum \<Rightarrow> bool" where
  "positive_num x = (case x of Fin r \<Rightarrow> 0 < r | PosInf \<Rightarrow> True | _ \<Rightarrow> False)"

definition digitVal :: "char \<Rightarrow> nat" where
  "digitVal c = (case map_of (zip ''0123456789'' [0, 1, 2, 3, 4, 5, 6, 7, 8, 9]) c of
                   Some n \<Rightarrow> n | None \<Rightarrow> 0)"

definition digitsToNat :: "string \<Rightarrow> nat" where
  "digitsToNat ds = foldl (\<lambda>a c. 10 * a + digitVal c) 0 ds"

text \<open>
  The exponent part of a decimal literal, read from the text that follows the mantissa:
  \<^verbatim>\<open>e\<close> or \<^verbatim>\<open>E\<close>, an optional sign and at least one digit. Anything else is no exponent.
\<close>

definition exponentPart :: "string \<Rightarrow> int" where
  "exponentPart s =
     (case s of
        [] \<Rightarrow> 0
      | c # t \<Rightarrow>
          if c = CHR ''e'' \<or> c = CHR ''E'' then
            (case t of
               [] \<Rightarrow> 0
             | d # u \<Rightarrow>
                 if d = CHR ''-'' then
                   (if takeWhile isDigit u = [] then 0 else - int (digitsToNat (takeWhile isDigit u)))
                 else if d = CHR ''+'' then
                   (if takeWhile isDigit u = [] then 0 else int (digitsToNat (takeWhile isDigit u)))
                 else int (digitsToNat (takeWhile isDigit t)))
          else 0)"

definition scale10 :: "rat \<Rightarrow> int \<Rightarrow> rat" where
  "scale10 m e = (if 0 \<le> e then m * 10 ^ nat e else m / 10 ^ nat (- e))"

text \<open>
  The longest prefix that is a \<^verbatim>\<open>StrUnsignedDecimalLiteral\<close>: \<^verbatim>\<open>Infinity\<close>, or digits with
  an optional fraction and exponent, or a fraction that starts with the dot.
\<close>

definition parseUnsigned :: "string \<Rightarrow> jsnum" where
  "parseUnsigned s =
     (if take 8 s = ''Infinity'' then PosInf
      else
        let ip = takeWhile isDigit s;
            r1 = dropWhile isDigit s;
            fp = (case r1 of [] \<Rightarrow> [] | c # t \<Rightarrow> if c = CHR ''.'' then takeWhile isDigit t else []);
            r2 = (case r1 of [] \<Rightarrow> [] | c # t \<Rightarrow> if c = CHR ''.'' then dropWhile isDigit t else r1)
        in if ip = [] \<and> fp = [] then NaN
           else Fin (scale10 (rat_of_nat (digitsToNat (ip @ fp)) / 10 ^ length fp)
                       (exponentPart r2)))"

text \<open>\<^verbatim>\<open>parseFloat\<close> on a string: leading white space is skipped, then an optional sign.\<close>

definition parseFloatStr :: "string \<Rightarrow> jsnum" where
  "parseFloatStr s =
     (case trimStart s of
        [] \<Rightarrow> NaN
      | c # t \<Rightarrow>
          if c = CHR ''-'' then neg_num (parseUnsigned t)
          else if c = CHR ''+'' then parseUnsigned t
          else parseUnsigned (c # t))"


text \<open>Decimal numerals, as \<^verbatim>\<open>toISOString\<close> prints the fields of a date.\<close>

definition digitChar :: "nat \<Rightarrow> char" where
  "digitChar n = ''0123456789'' ! (n mod 10)"

fun digitsOf :: "nat \<Rightarrow> string" where
  "digitsOf n = (if n < 10 then [digitChar n] else digitsOf (n div 10) @ [digitChar n])"

definition padStart :: "nat \<Rightarrow> string \<Rightarrow> string" where
  "padStart k s = replicate (k - length s) (CHR ''0'') @ s"

section \<open>Data model\<close>

text \<open>\<^verbatim>\<open>Category\<close> and \<^verbatim>\<open>Expense\<close> of \<^verbatim>\<open>types.ts\<close>, as the service fills them.\<close>

record Category =
  id_cat :: string
  name :: string
  color :: string
  isCustom :: bool

text \<open>
  A cell of a row read by \<^verbatim>\<open>sheet_to_json\<close> with \<^verbatim>\<open>cellDates\<close> and \<^verbatim>\<open>defval: ""\<close>: a
  string, a number, a native date (its time value in milliseconds) or a boolean.
\<close>

datatype cell = Str string | Num rat | DateV int | Bool bool

record Expense =
  id_exp :: string
  amount :: jsnum
  description :: string
  categoryId :: string
  date :: string
  notes_exp :: cell

text \<open>A row keeps its headers in the order of \<^verbatim>\<open>Object.keys\<close>.\<close>

type_synonym ParsedRow = "(string \<times> cell) list"

record ImportResult =
  expenses :: "Expense list"
  newCategories :: "Category list"

datatype upload = Unreadable | Workbook "ParsedRow list"

text \<open>
  The errors that reach a \<^verbatim>\<open>catch\<close>: the reader cannot decode the file, a global name
  is not defined, a property of \<^verbatim>\<open>null\<close> is read.
\<close>

datatype error = ReadError | ReferenceError | TypeError

text \<open>
  A value that \<^verbatim>\<open>JSON.parse\<close> can return. An object lists its own properties, each key
  once.
\<close>

datatype json =
    JNull
  | JBool bool
  | JNum rat
  | JStr string
  | JArr "json list"
  | JObj "(string \<times> json) list"

text \<open>
  What \<^verbatim>\<open>ai.models.generateContent\<close> followed by \<^verbatim>\<open>JSON.parse(response.text || '{}')\<close>
  comes to: the request throws, the response has no text (then \<^verbatim>\<open>'{}'\<close> is parsed), the
  text is not JSON (\<^verbatim>\<open>JSON.parse\<close> throws), or the text parses to a value.
\<close>

datatype reply = CallThrows | NoText | NotJson | Json json

text \<open>
  The test \<^verbatim>\<open>!process.env.API_KEY\<close> of the adapter: it throws where \<^verbatim>\<open>process\<close> is not
  defined, or finds no key, or finds one.
\<close>

datatype keyState = KeyThrows | KeyAbsent | KeyPresent

text \<open>
  What the service takes from its host: the random sources (the n-th call of \<^verbatim>\<open>uuidv4\<close>
  and of \<^verbatim>\<open>Math.random\<close>), number and date printing, the time zone, the clock, the
  implementation-defined \<^verbatim>\<open>Date.parse\<close>, the API key and the answer of the language
  model to the request of the adapter.
\<close>

record runtime =
  uuidv4 :: "nat \<Rightarrow> string"
  randomIndex :: "nat \<Rightarrow> nat"
  numberToString :: "rat \<Rightarrow> string"
  dateToString :: "int \<Rightarrow> string"
  getTimezoneOffset :: "int \<Rightarrow> int"
  utcOfLocal :: "int \<Rightarrow> int"
  now :: int
  dateParse :: "string \<Rightarrow> int option"
  apiKey :: keyState
  oracleReply :: "string list \<Rightarrow> Category list \<Rightarrow> reply"

text \<open>\<^verbatim>\<open>String(val)\<close> and the truth value of a cell.\<close>

definition String_of :: "runtime \<Rightarrow> cell \<Rightarrow> string" where
  "String_of rt v =
     (case v of
        Str s \<Rightarrow> s
      | Num r \<Rightarrow> numberToString rt r
      | DateV t \<Rightarrow> dateToString rt t
      | Bool b \<Rightarrow> if b then ''true'' else ''false'')"

definition truthy :: "cell \<Rightarrow> bool" where
  "truthy v = (case v of Str s \<Rightarrow> s \<noteq> [] | Num r \<Rightarrow> r \<noteq> 0 | DateV t \<Rightarrow> True | Bool b \<Rightarrow> b)"

text \<open>
  \<^verbatim>\<open>parseFloat(val)\<close>: a string is parsed, a number prints and parses back to itself, any
  other value is printed first.
\<close>

definition parseFloat :: "runtime \<Rightarrow> cell \<Rightarrow> jsnum" where
  "parseFloat rt v = (case v of Str s \<Rightarrow> parseFloatStr s | Num r \<Rightarrow> Fin r
                      | _ \<Rightarrow> parseFloatStr (String_of rt v))"

text \<open>
  \<^verbatim>\<open>getVal(row, keys)\<close>: for each alias in turn, the first header of the row that equals it
  without regard to case; the cell under that header is returned as soon as one is found.
\<close>

fun getVal :: "ParsedRow \<Rightarrow> string list \<Rightarrow> cell option" where
  "getVal row [] = None"
| "getVal row (key # keys) =
     (case find (\<lambda>k. toLowerCase k = toLowerCase key) (map fst row) of
        Some foundKey \<Rightarrow> if foundKey \<noteq> [] then map_of row foundKey else getVal row keys
      | None \<Rightarrow> getVal row keys)"

section \<open>Calendar dates\<close>

text \<open>
  Time values are milliseconds since the epoch; \<^verbatim>\<open>toISOString\<close> prints the proleptic
  Gregorian date of the day number.
\<close>

definition msPerDay :: int where
  "msPerDay = 86400000"

definition daysFromCivil :: "int \<Rightarrow> int \<Rightarrow> int \<Rightarrow> int" where
  "daysFromCivil y m d =
     (let y1 = (if m \<le> 2 then y - 1 else y);
          era = y1 div 400;
          yoe = y1 - era * 400;
          doy = (153 * (if 2 < m then m - 3 else m + 9) + 2) div 5 + d - 1;
          doe = yoe * 365 + yoe div 4 - yoe div 100 + doy
      in era * 146097 + doe - 719468)"

definition civilFromDays :: "int \<Rightarrow> int \<times> int \<times> int" where
  "civilFromDays z =
     (let z1 = z + 719468;
          era = z1 div 146097;
          doe = z1 - era * 146097;
          yoe = (doe - doe div 1460 + doe div 36524 - doe div 146096) div 365;
          doy = doe - (365 * yoe + yoe div 4 - yoe div 100);
          mp = (5 * doy + 2) div 153;
          d = doy - (153 * mp + 2) div 5 + 1;
          m = (if mp < 10 then mp + 3 else mp - 9)
      in (if m \<le> 2 then yoe + era * 400 + 1 else yoe + era * 400, m, d))"

text \<open>\<^verbatim>\<open>MakeDay(year, month, date)\<close> with a zero-based month that may lie outside 0..11.\<close>

definition MakeDay :: "int \<Rightarrow> int \<Rightarrow> int \<Rightarrow> int" where
  "MakeDay year month dt = daysFromCivil (year + month div 12) (month mod 12 + 1) 1 + dt - 1"

text \<open>
  \<^verbatim>\<open>new Date(year, month, day).getTime()\<close>: a year from 0 to 99 means 1900 + year, the
  fields are read in local time.
\<close>

definition newDateLocal :: "runtime \<Rightarrow> int \<Rightarrow> int \<Rightarrow> int \<Rightarrow> int" where
  "newDateLocal rt year month day =
     utcOfLocal rt
       (MakeDay (if 0 \<le> year \<and> year \<le> 99 then 1900 + year else year) month day * msPerDay)"

definition isoYear :: "int \<Rightarrow> string" where
  "isoYear y =
     (if 0 \<le> y \<and> y \<le> 9999 then padStart 4 (digitsOf (nat y))
      else (if y < 0 then ''-'' else ''+'') @ padStart 6 (digitsOf (nat \<bar>y\<bar>)))"

definition formatYMD :: "int \<times> int \<times> int \<Rightarrow> string" where
  "formatYMD ymd =
     (case ymd of (y, m, d) \<Rightarrow>
        isoYear y @ ''-'' @ padStart 2 (digitsOf (nat m)) @ ''-'' @ padStart 2 (digitsOf (nat d)))"

text \<open>\<^verbatim>\<open>new Date(t).toISOString().split('T')[0]\<close>\<close>

definition isoDate :: "int \<Rightarrow> string" where
  "isoDate t = formatYMD (civilFromDays (t div msPerDay))"

text \<open>\<^verbatim>\<open>/^\d{1,2}[-/]\d{1,2}[-/]\d{4}$/.test(val)\<close>\<close>

definition isSep :: "char \<Rightarrow> bool" where
  "isSep c = (c = CHR ''-'' \<or> c = CHR ''/'')"

definition splitSep :: "string \<Rightarrow> string \<times> string" where
  "splitSep s = (takeWhile (\<lambda>c. \<not> isSep c) s, drop 1 (dropWhile (\<lambda>c. \<not> isSep c) s))"

definition matchesDMY :: "string \<Rightarrow> bool" where
  "matchesDMY s =
     (let d = takeWhile isDigit s; r1 = dropWhile isDigit s;
          m = takeWhile isDigit (drop 1 r1); r2 = dropWhile isDigit (drop 1 r1);
          y = drop 1 r2
      in 1 \<le> length d \<and> length d \<le> 2 \<and> r1 \<noteq> [] \<and> isSep (hd r1)
         \<and> 1 \<le> length m \<and> length m \<le> 2 \<and> r2 \<noteq> [] \<and> isSep (hd r2)
         \<and> length y = 4 \<and> list_all isDigit y)"

text \<open>\<^verbatim>\<open>new Date(val).getTime()\<close> for a value that is not a native date; \<open>None\<close> is NaN.\<close>

definition newDateOf :: "runtime \<Rightarrow> cell \<Rightarrow> int option" where
  "newDateOf rt v =
     (case v of
        Str s \<Rightarrow> dateParse rt s
      | Num r \<Rightarrow> if \<bar>r\<bar> \<le> 8640000000000000 then Some (if 0 \<le> r then \<lfloor>r\<rfloor> else \<lceil>r\<rceil>) else None
      | DateV t \<Rightarrow> Some t
      | Bool b \<Rightarrow> Some (if b then 1 else 0))"

definition today :: "runtime \<Rightarrow> string" where
  "today rt = isoDate (now rt)"

definition parseDate :: "runtime \<Rightarrow> cell option \<Rightarrow> string" where
  "parseDate rt val =
     (case val of
        None \<Rightarrow> today rt
      | Some v \<Rightarrow>
          if \<not> truthy v then today rt
          else
            (case v of
               Str s \<Rightarrow>
                 if matchesDMY s then
                   (let day = int (digitsToNat (fst (splitSep s)));
                        month = int (digitsToNat (fst (splitSep (snd (splitSep s))))) - 1;
                        year = int (digitsToNat (snd (splitSep (snd (splitSep s)))));
                        d = newDateLocal rt year month day
                    in isoDate (d - getTimezoneOffset rt d * 60000))
                 else (case newDateOf rt v of Some d \<Rightarrow> isoDate d | None \<Rightarrow> today rt)
             | DateV t \<Rightarrow> isoDate (t - getTimezoneOffset rt t * 60000)
             | _ \<Rightarrow> (case newDateOf rt v of Some d \<Rightarrow> isoDate d | None \<Rightarrow> today rt)))"


section \<open>The category resolver\<close>

text \<open>
  The state of one call of \<^verbatim>\<open>parseFile\<close>: the expenses pushed so far, the map of the
  categories created in this call (a JavaScript \<^verbatim>\<open>Map\<close>, which keeps insertion order,
  keyed by the lower-cased token), and how often each random source has been called.
\<close>

record session =
  newExpenses :: "Expense list"
  newCategoriesCreatedMap :: "(string \<times> Category) list"
  uuidCalls :: nat
  randomCalls :: nat

definition emptySession :: session where
  "emptySession = \<lparr>newExpenses = [], newCategoriesCreatedMap = [], uuidCalls = 0, randomCalls = 0\<rparr>"

record resolved =
  id_res :: string
  originalName :: "string option"
  isNew :: bool

definition colors :: "string list" where
  "colors = [''#EF4444'', ''#F97316'', ''#F59E0B'', ''#84CC16'', ''#10B981'',
             ''#06B6D4'', ''#3B82F6'', ''#6366F1'', ''#8B5CF6'', ''#D946EF'',
             ''#F43F5E'', ''#64748B'']"

definition generateRandomColor :: "runtime \<Rightarrow> nat \<Rightarrow> string" where
  "generateRandomColor rt n = colors ! (randomIndex rt n mod length colors)"

text \<open>\<^verbatim>\<open>aiMapping[k]\<close> as a condition: a missing key and the empty string are both falsy.\<close>

definition lookupTruthy :: "(string \<rightharpoonup> string) \<Rightarrow> string \<Rightarrow> string option" where
  "lookupTruthy m k = (case m k of None \<Rightarrow> None | Some v \<Rightarrow> if v = [] then None else Some v)"

text \<open>\<^verbatim>\<open>aiMapping[cleanRaw] || aiMapping[lowerRaw] || aiMapping[rawInput]\<close>\<close>

definition mappedId_of :: "(string \<rightharpoonup> string) \<Rightarrow> string \<Rightarrow> string option" where
  "mappedId_of aiMapping rawInput =
     (case lookupTruthy aiMapping (trim rawInput) of
        Some v \<Rightarrow> Some v
      | None \<Rightarrow>
          (case lookupTruthy aiMapping (toLowerCase (trim rawInput)) of
             Some v \<Rightarrow> Some v
           | None \<Rightarrow> lookupTruthy aiMapping rawInput))"

text \<open>Case 1A: the mapped value is not \<^verbatim>\<open>"NEW"\<close> and is the id of an existing category.\<close>

definition oracleHit :: "Category list \<Rightarrow> (string \<rightharpoonup> string) \<Rightarrow> string \<Rightarrow> string option" where
  "oracleHit existingCategories aiMapping rawInput =
     (case mappedId_of aiMapping rawInput of
        None \<Rightarrow> None
      | Some mappedId \<Rightarrow>
          if mappedId \<noteq> ''NEW'' \<and> find (\<lambda>c. id_cat c = mappedId) existingCategories \<noteq> None
          then Some mappedId else None)"

definition resolveCategory ::
  "runtime \<Rightarrow> Category list \<Rightarrow> (string \<rightharpoonup> string) \<Rightarrow> session \<Rightarrow> string \<Rightarrow> resolved \<times> session" where
  "resolveCategory rt existingCategories aiMapping st rawInput =
     (let cleanRaw = trim rawInput;
          lowerRaw = toLowerCase cleanRaw
      in case oracleHit existingCategories aiMapping rawInput of
           Some mappedId \<Rightarrow>
             (\<lparr>id_res = mappedId, originalName = Some cleanRaw, isNew = False\<rparr>, st)
         | None \<Rightarrow>
             (case map_of (newCategoriesCreatedMap st) lowerRaw of
                Some created \<Rightarrow>
                  (\<lparr>id_res = id_cat created, originalName = None, isNew = True\<rparr>, st)
              | None \<Rightarrow>
                  (case find (\<lambda>c. toLowerCase (name c) = lowerRaw) existingCategories of
                     Some strictMatch \<Rightarrow>
                       (\<lparr>id_res = id_cat strictMatch, originalName = None, isNew = False\<rparr>, st)
                   | None \<Rightarrow>
                       (let newCat = \<lparr>id_cat = uuidv4 rt (uuidCalls st),
                                       name = (if toTitleCase cleanRaw = [] then ''Imported Misc''
                                               else toTitleCase cleanRaw),
                                       color = generateRandomColor rt (randomCalls st),
                                       isCustom = True\<rparr>
                        in (\<lparr>id_res = id_cat newCat, originalName = None, isNew = True\<rparr>,
                            st\<lparr>newCategoriesCreatedMap :=
                                  newCategoriesCreatedMap st @ [(lowerRaw, newCat)],
                                uuidCalls := Suc (uuidCalls st),
                                randomCalls := Suc (randomCalls st)\<rparr>)))))"

text \<open>\<^verbatim>\<open>!result.isNew && result.originalName\<close>\<close>

definition mappedByOracle :: "resolved \<Rightarrow> bool" where
  "mappedByOracle r = (\<not> isNew r \<and> (case originalName r of None \<Rightarrow> False | Some n \<Rightarrow> n \<noteq> []))"

text \<open>\<^verbatim>\<open>newExpenses.push({id: uuidv4(), ...})\<close>\<close>

definition pushExpense ::
  "runtime \<Rightarrow> session \<Rightarrow> jsnum \<Rightarrow> string \<Rightarrow> string \<Rightarrow> string \<Rightarrow> cell \<Rightarrow> session" where
  "pushExpense rt st amt desc cid dateStr nts =
     st\<lparr>newExpenses := newExpenses st @
           [\<lparr>id_exp = uuidv4 rt (uuidCalls st), amount = amt, description = desc,
             categoryId = cid, date = dateStr, notes_exp = nts\<rparr>],
        uuidCalls := Suc (uuidCalls st)\<rparr>"

section \<open>The oracle adapter and its answer\<close>

text \<open>
  \<^verbatim>\<open>GeminiService.mapImportCategories\<close>: no request for an empty list of tokens or without
  a key; every failure of the request and of \<^verbatim>\<open>JSON.parse\<close> is caught and gives \<^verbatim>\<open>{}\<close>;
  otherwise the parsed value is returned as it is, whatever JSON value it is.
\<close>

definition mapImportCategories :: "runtime \<Rightarrow> string list \<Rightarrow> Category list \<Rightarrow> error + json" where
  "mapImportCategories rt rawCategories existingCategories =
     (if length rawCategories = 0 then Inr (JObj [])
      else
        (case apiKey rt of
           KeyThrows \<Rightarrow> Inl ReferenceError
         | KeyAbsent \<Rightarrow> Inr (JObj [])
         | KeyPresent \<Rightarrow>
             (case oracleReply rt rawCategories existingCategories of
                CallThrows \<Rightarrow> Inr (JObj [])
              | NoText \<Rightarrow> Inr (JObj [])
              | NotJson \<Rightarrow> Inr (JObj [])
              | Json v \<Rightarrow> Inr v)))"

text \<open>
  The mapping step of \<^verbatim>\<open>parseFile\<close>: the adapter is asked once, for at most 1000 tokens,
  and only when there is a token; \<^verbatim>\<open>aiMapping\<close> starts as \<^verbatim>\<open>{}\<close> and stays so when the
  call throws.
\<close>

definition aiMappingStep :: "runtime \<Rightarrow> string list \<Rightarrow> Category list \<Rightarrow> json" where
  "aiMappingStep rt uniqueRawCategories existingCategories =
     (if length uniqueRawCategories > 0
      then (case mapImportCategories rt (take 1000 uniqueRawCategories) existingCategories of
              Inr v \<Rightarrow> v
            | Inl err \<Rightarrow> JObj [])
      else JObj [])"

text \<open>
  \<^verbatim>\<open>aiMapping[k]\<close> for a value that is not \<^verbatim>\<open>null\<close>: an own property of an object, an
  element or the length of an array, a character or the length of a string, and nothing
  for a number or a boolean (\<open>None\<close> is \<^verbatim>\<open>undefined\<close>). Properties inherited from a
  prototype are not modelled. Reading a property of \<^verbatim>\<open>null\<close> throws; that is in
  \<open>resolveCategoryE\<close> below.
\<close>

definition indexKeys :: "nat \<Rightarrow> string list" where
  "indexKeys n = map digitsOf [0..<n]"

definition getProp :: "json \<Rightarrow> string \<Rightarrow> json option" where
  "getProp a k =
     (case a of
        JObj props \<Rightarrow> map_of props k
      | JArr xs \<Rightarrow>
          if k = ''length'' then Some (JNum (rat_of_nat (length xs)))
          else map_of (zip (indexKeys (length xs)) xs) k
      | JStr str \<Rightarrow>
          if k = ''length'' then Some (JNum (rat_of_nat (length str)))
          else map_of (zip (indexKeys (length str)) (map (\<lambda>c. JStr [c]) str)) k
      | _ \<Rightarrow> None)"

definition truthyJson :: "json \<Rightarrow> bool" where
  "truthyJson v =
     (case v of
        JNull \<Rightarrow> False
      | JBool b \<Rightarrow> b
      | JNum r \<Rightarrow> r \<noteq> 0
      | JStr str \<Rightarrow> str \<noteq> []
      | JArr xs \<Rightarrow> True
      | JObj props \<Rightarrow> True)"

definition lookupTruthyJson :: "json \<Rightarrow> string \<Rightarrow> json option" where
  "lookupTruthyJson a k =
     (case getProp a k of None \<Rightarrow> None | Some v \<Rightarrow> if truthyJson v then Some v else None)"

text \<open>
  The oracle step of the resolver on the JSON value: the first truthy value among the
  three keys; it is a hit when it is a string other than \<^verbatim>\<open>"NEW"\<close> that is the id of an
  existing category (\<^verbatim>\<open>c.id === mappedId\<close> holds for no value that is not a string).
\<close>

definition mappedIdJson :: "json \<Rightarrow> string \<Rightarrow> json option" where
  "mappedIdJson a rawInput =
     (case lookupTruthyJson a (trim rawInput) of
        Some v \<Rightarrow> Some v
      | None \<Rightarrow>
          (case lookupTruthyJson a (toLowerCase (trim rawInput)) of
             Some v \<Rightarrow> Some v
           | None \<Rightarrow> lookupTruthyJson a rawInput))"

definition oracleHitJson :: "Category list \<Rightarrow> json \<Rightarrow> string \<Rightarrow> string option" where
  "oracleHitJson existingCategories a rawInput =
     (case mappedIdJson a rawInput of
        None \<Rightarrow> None
      | Some v \<Rightarrow>
          (case v of
             JStr mappedId \<Rightarrow>
               if mappedId \<noteq> ''NEW'' \<and> find (\<lambda>c. id_cat c = mappedId) existingCategories \<noteq> None
               then Some mappedId else None
           | _ \<Rightarrow> None))"

text \<open>
  The JSON value as the mapping that \<^const>\<open>resolveCategory\<close> reads. A truthy value that is
  not a string passes for \<^verbatim>\<open>"NEW"\<close>: it ends the chain of \<^verbatim>\<open>||\<close> and is the id of no
  category, which is all the resolver asks of it (lemma \<open>oracleHit_mappingOf\<close>).
\<close>

definition mappingOf :: "json \<Rightarrow> (string \<rightharpoonup> string)" where
  "mappingOf a k =
     (case lookupTruthyJson a k of
        None \<Rightarrow> None
      | Some v \<Rightarrow> Some (case v of JStr str \<Rightarrow> str | _ \<Rightarrow> ''NEW''))"

text \<open>
  \<^verbatim>\<open>resolveCategory\<close> as \<^verbatim>\<open>parseFile\<close> calls it: the first thing it evaluates after the
  two string operations is \<^verbatim>\<open>aiMapping[cleanRaw]\<close>, which throws a TypeError when the
  adapter returned \<^verbatim>\<open>null\<close>.
\<close>

definition resolveCategoryE ::
  "runtime \<Rightarrow> Category list \<Rightarrow> json \<Rightarrow> session \<Rightarrow> string \<Rightarrow> error + resolved \<times> session" where
  "resolveCategoryE rt existingCategories aiMapping st rawInput =
     (if aiMapping = JNull then Inl TypeError
      else Inr (resolveCategory rt existingCategories (mappingOf aiMapping) st rawInput))"

section \<open>Schema detection and the category source\<close>

datatype sourceType = explicit_category | description_source | matrix

definition amountHeaders :: "string list" where
  "amountHeaders = [''amount'', ''amt'', ''price'', ''cost'', ''debit'', ''spending'', ''value'']"

definition dateHeaders :: "string list" where
  "dateHeaders = [''date'', ''dt'', ''when'', ''day'']"

definition categoryAliases :: "string list" where
  "categoryAliases = [''category'', ''cat'', ''type'', ''expense type'']"

definition descriptionAliases :: "string list" where
  "descriptionAliases = [''description'', ''desc'', ''details'', ''particulars'', ''narration'']"

definition amountAliases :: "string list" where
  "amountAliases = [''amount'', ''amt'', ''cost'', ''price'', ''debit'', ''spending'', ''value'']"

definition dateAliases :: "string list" where
  "dateAliases = [''date'', ''dt'', ''time'', ''when'']"

definition notesAliases :: "string list" where
  "notesAliases = [''notes'', ''remarks'', ''comment'']"

definition genericTerms :: "string list" where
  "genericTerms = [''debit'', ''credit'', ''dr'', ''cr'', ''withdrawal'', ''deposit'', ''transfer'',
                   ''upi'', ''pos'', ''atm'', ''card'', ''imps'', ''neft'', ''rtgs'', ''mbk'',
                   ''mobile'', ''net'', ''banking'', ''txn'', ''transaction'', ''expense'',
                   ''payment'']"

text \<open>\<^verbatim>\<open>Set.add\<close> on a set kept in insertion order.\<close>

definition set_add :: "string list \<Rightarrow> string \<Rightarrow> string list" where
  "set_add xs x = (if x \<in> set xs then xs else xs @ [x])"

text \<open>
  \<^verbatim>\<open>rawData.forEach(row => { const val = getVal(row, keys); if (val)
  rawCategoriesSet.add(String(val).trim()) })\<close>
\<close>

definition collectValues :: "runtime \<Rightarrow> ParsedRow list \<Rightarrow> string list \<Rightarrow> string list" where
  "collectValues rt rawData keys =
     fold (\<lambda>row acc. case getVal row keys of
                        None \<Rightarrow> acc
                      | Some v \<Rightarrow> if truthy v then set_add acc (trim (String_of rt v)) else acc)
          rawData []"

definition genericCount :: "string list \<Rightarrow> nat" where
  "genericCount uniqueItems = length (filter (\<lambda>i. toLowerCase i \<in> set genericTerms) uniqueItems)"

text \<open>
  The quality test. The quotient of the two counts is compared with one half; for counts
  that a sheet can have the comparison is exact in binary64 as well.
\<close>

definition shouldUseDescription :: "string list \<Rightarrow> nat \<Rightarrow> bool" where
  "shouldUseDescription rawCategoriesSet nrows =
     (if length rawCategoriesSet = 0 then True
      else rat_of_nat (genericCount rawCategoriesSet) / rat_of_nat (length rawCategoriesSet) > 1 / 2
           \<or> (length rawCategoriesSet < 3 \<and> nrows > 5))"

definition detectListSource :: "runtime \<Rightarrow> ParsedRow list \<Rightarrow> sourceType \<times> string list" where
  "detectListSource rt rawData =
     (if shouldUseDescription (collectValues rt rawData categoryAliases) (length rawData)
      then (description_source, collectValues rt rawData descriptionAliases)
      else (explicit_category, collectValues rt rawData categoryAliases))"

definition matrixCategories :: "string list \<Rightarrow> string \<Rightarrow> string list" where
  "matrixCategories headers dateKey =
     fold (\<lambda>h acc.
             if trim (toLowerCase h) \<noteq> []
                \<and> trim (toLowerCase h) \<notin> set [''total'', ''final'', ''subtotal'', ''sum'', ''notes'',
                                                 ''comments'', ''description'', toLowerCase dateKey]
                \<and> \<not> includes_str (trim (toLowerCase h)) ''total''
             then set_add acc (trim h) else acc)
          headers []"

section \<open>Row transformation\<close>

text \<open>
  The transformers of this section take the mapping as it is read from the adapter's
  value (\<^const>\<open>mappingOf\<close>); they are what a row does whenever that value is not
  \<^verbatim>\<open>null\<close>. The next section adds the exception.
\<close>

text \<open>Matrix mode: one cell of a row, under the category header \<open>rawCatHeader\<close>.\<close>

definition matrixAmount :: "runtime \<Rightarrow> cell option \<Rightarrow> jsnum" where
  "matrixAmount rt val =
     (case val of
        None \<Rightarrow> NaN
      | Some v \<Rightarrow> (case v of Str s \<Rightarrow> parseFloatStr (stripCommas s) | _ \<Rightarrow> parseFloat rt v))"

definition matrixDescription :: "Category list \<Rightarrow> resolved \<Rightarrow> string \<Rightarrow> string" where
  "matrixDescription existingCategories result rawCatHeader =
     (if mappedByOracle result then
        (case find (\<lambda>c. id_cat c = id_res result) existingCategories of
           None \<Rightarrow> toTitleCase rawCatHeader @ '' Expense''
         | Some c \<Rightarrow>
             if name c \<noteq> [] \<and> toLowerCase (name c) \<noteq> toLowerCase rawCatHeader
             then name c @ '' Expense ('' @ rawCatHeader @ '')''
             else toTitleCase rawCatHeader @ '' Expense'')
      else toTitleCase rawCatHeader @ '' Expense'')"

definition processMatrixCell ::
  "runtime \<Rightarrow> Category list \<Rightarrow> (string \<rightharpoonup> string) \<Rightarrow> ParsedRow \<Rightarrow> string \<Rightarrow> string
     \<Rightarrow> session \<Rightarrow> session" where
  "processMatrixCell rt existingCategories aiMapping row dateStr rawCatHeader st =
     (let amt = matrixAmount rt (map_of row rawCatHeader)
      in if amt \<noteq> NaN \<and> positive_num amt then
           (case resolveCategory rt existingCategories aiMapping st rawCatHeader of
              (result, st1) \<Rightarrow>
                pushExpense rt st1 amt (matrixDescription existingCategories result rawCatHeader)
                  (id_res result) dateStr (Str ''Imported via Matrix''))
         else st)"

definition processMatrixRow ::
  "runtime \<Rightarrow> Category list \<Rightarrow> (string \<rightharpoonup> string) \<Rightarrow> string \<Rightarrow> string list \<Rightarrow> ParsedRow
     \<Rightarrow> session \<Rightarrow> session" where
  "processMatrixRow rt existingCategories aiMapping dateKey uniqueRawCategories row st =
     (case map_of row dateKey of
        None \<Rightarrow> st
      | Some dateVal \<Rightarrow>
          if \<not> truthy dateVal then st
          else if includes_str (toLowerCase (String_of rt dateVal)) ''total''
                  \<or> includes_str (toLowerCase (String_of rt dateVal)) ''final'' then st
          else fold (processMatrixCell rt existingCategories aiMapping row
                       (parseDate rt (Some dateVal)))
                 uniqueRawCategories st)"

text \<open>List mode: the parts of one row.\<close>

definition rowDescription :: "ParsedRow \<Rightarrow> cell" where
  "rowDescription row =
     (case getVal row descriptionAliases of
        None \<Rightarrow> Str ''Imported Expense''
      | Some v \<Rightarrow> if truthy v then v else Str ''Imported Expense'')"

definition rowNotes :: "ParsedRow \<Rightarrow> cell" where
  "rowNotes row =
     (case getVal row notesAliases of None \<Rightarrow> Str [] | Some v \<Rightarrow> if truthy v then v else Str [])"

text \<open>
  The amount of a list row: \<open>None\<close> when the row returns early (the value is null or the
  empty string, \<^verbatim>\<open>parseFloat\<close> gives NaN, or the absolute value is 0).
\<close>

definition rowAmount :: "runtime \<Rightarrow> ParsedRow \<Rightarrow> jsnum option" where
  "rowAmount rt row =
     (case getVal row amountAliases of
        None \<Rightarrow> None
      | Some amountStr \<Rightarrow>
          if amountStr = Str [] then None
          else if parseFloat rt amountStr = NaN then None
          else if abs_num (parseFloat rt amountStr) = Fin 0 then None
          else Some (abs_num (parseFloat rt amountStr)))"

definition rawInputForCategory :: "sourceType \<Rightarrow> ParsedRow \<Rightarrow> cell option" where
  "rawInputForCategory usedSourceType row =
     (if usedSourceType = explicit_category then getVal row categoryAliases
      else Some (rowDescription row))"

text \<open>
  The description after resolution: the raw token is appended in parentheses when the
  category column was the source, the oracle mapped the token, the mapped category has a
  name and the description does not contain the token.
\<close>

definition listDescription ::
  "runtime \<Rightarrow> Category list \<Rightarrow> sourceType \<Rightarrow> resolved \<Rightarrow> cell \<Rightarrow> cell \<Rightarrow> string" where
  "listDescription rt existingCategories usedSourceType result desc raw =
     (if usedSourceType = explicit_category \<and> mappedByOracle result then
        (case find (\<lambda>c. id_cat c = id_res result) existingCategories of
           None \<Rightarrow> String_of rt desc
         | Some c \<Rightarrow>
             if name c \<noteq> []
                \<and> \<not> includes_str (toLowerCase (String_of rt desc)) (toLowerCase (String_of rt raw))
             then String_of rt desc @ '' ('' @ String_of rt raw @ '')''
             else String_of rt desc)
      else String_of rt desc)"

definition processListRow ::
  "runtime \<Rightarrow> Category list \<Rightarrow> (string \<rightharpoonup> string) \<Rightarrow> sourceType \<Rightarrow> ParsedRow
     \<Rightarrow> session \<Rightarrow> session" where
  "processListRow rt existingCategories aiMapping usedSourceType row st =
     (case rowAmount rt row of
        None \<Rightarrow> st
      | Some amt \<Rightarrow>
          (let dateStr = parseDate rt (getVal row dateAliases);
               fallback =
                 (case find (\<lambda>c. name c = ''Others'') existingCategories of
                    Some others \<Rightarrow>
                      pushExpense rt st amt (String_of rt (rowDescription row)) (id_cat others)
                        dateStr (rowNotes row)
                  | None \<Rightarrow>
                      (case resolveCategory rt existingCategories aiMapping st ''Others'' of
                         (result, st1) \<Rightarrow>
                           pushExpense rt st1 amt (String_of rt (rowDescription row))
                             (id_res result) dateStr (rowNotes row)))
           in case rawInputForCategory usedSourceType row of
                None \<Rightarrow> fallback
              | Some raw \<Rightarrow>
                  if truthy raw then
                    (case resolveCategory rt existingCategories aiMapping st (String_of rt raw) of
                       (result, st1) \<Rightarrow>
                         pushExpense rt st1 amt
                           (listDescription rt existingCategories usedSourceType result
                              (rowDescription row) raw)
                           (id_res result) dateStr (rowNotes row))
                  else fallback))"

section \<open>Row transformation with the exception\<close>

text \<open>
  The same transformers with the JSON value as the mapping and with the TypeError of
  \<^const>\<open>resolveCategoryE\<close>, which leaves \<^verbatim>\<open>forEach\<close> and reaches the \<^verbatim>\<open>catch\<close> of
  \<^verbatim>\<open>parseFile\<close>. For a mapping other than \<^verbatim>\<open>null\<close> they are the transformers above
  (lemmas \<open>processListRowE_total\<close> and \<open>processMatrixRowE_total\<close>).
\<close>

fun forEachE :: "('a \<Rightarrow> 's \<Rightarrow> error + 's) \<Rightarrow> 'a list \<Rightarrow> 's \<Rightarrow> error + 's" where
  "forEachE f [] s = Inr s"
| "forEachE f (x # xs) s = (case f x s of Inl err \<Rightarrow> Inl err | Inr s' \<Rightarrow> forEachE f xs s')"

definition processMatrixCellE ::
  "runtime \<Rightarrow> Category list \<Rightarrow> json \<Rightarrow> ParsedRow \<Rightarrow> string \<Rightarrow> string
     \<Rightarrow> session \<Rightarrow> error + session" where
  "processMatrixCellE rt existingCategories aiMapping row dateStr rawCatHeader st =
     (let amt = matrixAmount rt (map_of row rawCatHeader)
      in if amt \<noteq> NaN \<and> positive_num amt then
           (case resolveCategoryE rt existingCategories aiMapping st rawCatHeader of
              Inl err \<Rightarrow> Inl err
            | Inr (result, st1) \<Rightarrow>
                Inr (pushExpense rt st1 amt
                       (matrixDescription existingCategories result rawCatHeader)
                       (id_res result) dateStr (Str ''Imported via Matrix'')))
         else Inr st)"

definition processMatrixRowE ::
  "runtime \<Rightarrow> Category list \<Rightarrow> json \<Rightarrow> string \<Rightarrow> string list \<Rightarrow> ParsedRow
     \<Rightarrow> session \<Rightarrow> error + session" where
  "processMatrixRowE rt existingCategories aiMapping dateKey uniqueRawCategories row st =
     (case map_of row dateKey of
        None \<Rightarrow> Inr st
      | Some dateVal \<Rightarrow>
          if \<not> truthy dateVal then Inr st
          else if includes_str (toLowerCase (String_of rt dateVal)) ''total''
                  \<or> includes_str (toLowerCase (String_of rt dateVal)) ''final'' then Inr st
          else forEachE (processMatrixCellE rt existingCategories aiMapping row
                           (parseDate rt (Some dateVal)))
                 uniqueRawCategories st)"

definition processListRowE ::
  "runtime \<Rightarrow> Category list \<Rightarrow> json \<Rightarrow> sourceType \<Rightarrow> ParsedRow
     \<Rightarrow> session \<Rightarrow> error + session" where
  "processListRowE rt existingCategories aiMapping usedSourceType row st =
     (case rowAmount rt row of
        None \<Rightarrow> Inr st
      | Some amt \<Rightarrow>
          (let dateStr = parseDate rt (getVal row dateAliases);
               fallback =
                 (case find (\<lambda>c. name c = ''Others'') existingCategories of
                    Some others \<Rightarrow>
                      Inr (pushExpense rt st amt (String_of rt (rowDescription row))
                             (id_cat others) dateStr (rowNotes row))
                  | None \<Rightarrow>
                      (case resolveCategoryE rt existingCategories aiMapping st ''Others'' of
                         Inl err \<Rightarrow> Inl err
                       | Inr (result, st1) \<Rightarrow>
                           Inr (pushExpense rt st1 amt (String_of rt (rowDescription row))
                                  (id_res result) dateStr (rowNotes row))))
           in case rawInputForCategory usedSourceType row of
                None \<Rightarrow> fallback
              | Some raw \<Rightarrow>
                  if truthy raw then
                    (case resolveCategoryE rt existingCategories aiMapping st
                            (String_of rt raw) of
                       Inl err \<Rightarrow> Inl err
                     | Inr (result, st1) \<Rightarrow>
                         Inr (pushExpense rt st1 amt
                                (listDescription rt existingCategories usedSourceType result
                                   (rowDescription row) raw)
                                (id_res result) dateStr (rowNotes row)))
                  else fallback))"

section \<open>The import pipeline\<close>

definition isMatrixMode :: "string list \<Rightarrow> bool" where
  "isMatrixMode headers =
     (find (\<lambda>h. toLowerCase h \<in> set dateHeaders) headers \<noteq> None
      \<and> find (\<lambda>h. toLowerCase h \<in> set amountHeaders) headers = None
      \<and> length headers > 2)"

definition uniqueRawCategories_of :: "string list \<Rightarrow> string list" where
  "uniqueRawCategories_of rawCategoriesSet = filter (\<lambda>s. s \<noteq> [] \<and> length s > 1) rawCategoriesSet"

definition finish :: "session \<Rightarrow> ImportResult" where
  "finish st = \<lparr>expenses = newExpenses st, newCategories = map snd (newCategoriesCreatedMap st)\<rparr>"

definition importMatrix ::
  "runtime \<Rightarrow> ParsedRow list \<Rightarrow> Category list \<Rightarrow> string \<Rightarrow> error + session" where
  "importMatrix rt rawData existingCategories dateKey =
     (let uniqueRawCategories =
            uniqueRawCategories_of (matrixCategories (map fst (hd rawData)) dateKey);
          aiMapping = aiMappingStep rt uniqueRawCategories existingCategories
      in forEachE (processMatrixRowE rt existingCategories aiMapping dateKey uniqueRawCategories)
           rawData emptySession)"

definition importList :: "runtime \<Rightarrow> ParsedRow list \<Rightarrow> Category list \<Rightarrow> error + session" where
  "importList rt rawData existingCategories =
     (case detectListSource rt rawData of
        (usedSourceType, rawCategoriesSet) \<Rightarrow>
          forEachE (processListRowE rt existingCategories
                      (aiMappingStep rt (uniqueRawCategories_of rawCategoriesSet)
                         existingCategories)
                      usedSourceType)
            rawData emptySession)"

text \<open>\<^verbatim>\<open>resolve({expenses, newCategories})\<close>, or \<^verbatim>\<open>reject(error)\<close> from the \<^verbatim>\<open>catch\<close>.\<close>

definition settle :: "error + session \<Rightarrow> error + ImportResult" where
  "settle r = (case r of Inl err \<Rightarrow> Inl err | Inr st \<Rightarrow> Inr (finish st))"

text \<open>
  \<^verbatim>\<open>ExcelService.parseFile\<close>, from the rows the reader decoded. The promise is rejected
  when the reader cannot decode the file and when the body throws, which it does on the
  first call of the resolver after the adapter returned \<^verbatim>\<open>null\<close>.
\<close>

definition parseFile :: "runtime \<Rightarrow> upload \<Rightarrow> Category list \<Rightarrow> error + ImportResult" where
  "parseFile rt file existingCategories =
     (case file of
        Unreadable \<Rightarrow> Inl ReadError
      | Workbook rawData \<Rightarrow>
          if length rawData = 0 then Inr \<lparr>expenses = [], newCategories = []\<rparr>
          else if isMatrixMode (map fst (hd rawData)) then
            (case find (\<lambda>h. toLowerCase h \<in> set dateHeaders) (map fst (hd rawData)) of
               Some dateKey \<Rightarrow> settle (importMatrix rt rawData existingCategories dateKey)
             | None \<Rightarrow> settle (importList rt rawData existingCategories))
          else settle (importList rt rawData existingCategories))"

section \<open>Invariants of a session\<close>

text \<open>The category ids a session knows: the caller's categories and the ones it created.\<close>

definition knownIds :: "Category list \<Rightarrow> session \<Rightarrow> string set" where
  "knownIds existingCategories st =
     id_cat ` set existingCategories \<union> id_cat ` snd ` set (newCategoriesCreatedMap st)"

definition catsKnown :: "Category list \<Rightarrow> session \<Rightarrow> bool" where
  "catsKnown existingCategories st =
     (\<forall>e \<in> set (newExpenses st). categoryId e \<in> knownIds existingCategories st)"

section \<open>Sample data\<close>

text \<open>
  A host in the time zone UTC+05:30 whose n-th identifier is \<open>uuid-n\<close> and whose oracle
  knows two tokens, and two categories of the caller.
\<close>

definition sampleOracle :: "string \<rightharpoonup> string" where
  "sampleOracle = [''Food'' \<mapsto> ''c1'', ''Kirana'' \<mapsto> ''c2'']"

definition sampleReply :: json where
  "sampleReply = JObj [(''Food'', JStr ''c1''), (''Kirana'', JStr ''c2'')]"

definition sampleRuntime :: runtime where
  "sampleRuntime =
     \<lparr>uuidv4 = (\<lambda>n. ''uuid-'' @ digitsOf n),
      randomIndex = (\<lambda>n. n),
      numberToString = (\<lambda>r. digitsOf (nat \<lfloor>r\<rfloor>)),
      dateToString = (\<lambda>t. ''Tue Mar 05 2024 00:00:00 GMT+0530 (India Standard Time)''),
      getTimezoneOffset = (\<lambda>t. - 330),
      utcOfLocal = (\<lambda>t. t - 330 * 60000),
      now = 1700000000000,
      dateParse = (\<lambda>s. None),
      apiKey = KeyPresent,
      oracleReply = (\<lambda>tokens cats. Json sampleReply)\<rparr>"

definition sampleCategories :: "Category list" where
  "sampleCategories =
     [\<lparr>id_cat = ''c1'', name = ''Food'', color = ''#EF4444'', isCustom = False\<rparr>,
      \<lparr>id_cat = ''c2'', name = ''Groceries'', color = ''#10B981'', isCustom = False\<rparr>]"

section \<open>Steps of a session\<close>

text \<open>
  The two operations that change the session while rows are processed: a call of
  \<^const>\<open>resolveCategory\<close> and a push of an expense. \<open>later rt ex ai st st'\<close> holds when
  \<open>st'\<close> is reached from \<open>st\<close> by any number of them.
\<close>

inductive later ::
  "runtime \<Rightarrow> Category list \<Rightarrow> (string \<rightharpoonup> string) \<Rightarrow> session \<Rightarrow> session \<Rightarrow> bool"
  for rt :: runtime and ex :: "Category list" and ai :: "string \<rightharpoonup> string" and st :: session
  where
    later_refl: "later rt ex ai st st"
  | later_resolve:
      "later rt ex ai st st1 \<Longrightarrow> later rt ex ai st (snd (resolveCategory rt ex ai st1 t))"
  | later_push:
      "later rt ex ai st st1 \<Longrightarrow> later rt ex ai st (pushExpense rt st1 amt desc cid dateStr nts)"

text \<open>
  The same host with a request that always throws, and with a language model that
  answers with the JSON text \<^verbatim>\<open>null\<close>.
\<close>

definition failingRuntime :: runtime where
  "failingRuntime = sampleRuntime\<lparr>oracleReply := (\<lambda>tokens cats. CallThrows)\<rparr>"

definition nullReplyRuntime :: runtime where
  "nullReplyRuntime = sampleRuntime\<lparr>oracleReply := (\<lambda>tokens cats. Json JNull)\<rparr>"

text \<open>A bank export of ten rows whose category column only says Debit or Credit.\<close>

definition debitCreditSheet :: "ParsedRow list" where
  "debitCreditSheet =
     [[(''Date'', Str ''01-03-2024''), (''Type'', Str ''Debit''), 
       (''Narration'', Str ''swiggy order''), (''Amount'', Num 250)],
      [(''Date'', Str ''02-03-2024''), (''Type'', Str ''Debit''), 
       (''Narration'', Str ''kirana store''), (''Amount'', Num 500)],
      [(''Date'', Str ''03-03-2024''), (''Type'', Str ''Credit''), 
       (''Narration'', Str ''refund''), (''Amount'', Num 100)],
      [(''Date'', Str ''04-03-2024''), (''Type'', Str ''Debit''), 
       (''Narration'', Str ''auto''), (''Amount'', Num 80)],
      [(''Date'', Str ''05-03-2024''), (''Type'', Str ''Debit''), 
       (''Narration'', Str ''rent''), (''Amount'', Num 9000)],
      [(''Date'', Str ''06-03-2024''), (''Type'', Str ''Credit''), 
       (''Narration'', Str ''salary''), (''Amount'', Num 50000)],
      [(''Date'', Str ''07-03-2024''), (''Type'', Str ''Debit''), 
       (''Narration'', Str ''swiggy order''), (''Amount'', Num 300)],
      [(''Date'', Str ''08-03-2024''), (''Type'', Str ''Debit''), 
       (''Narration'', Str ''medicine''), (''Amount'', Num 120)],
      [(''Date'', Str ''09-03-2024''), (''Type'', Str ''Debit''), 
       (''Narration'', Str ''petrol''), (''Amount'', Num 700)],
      [(''Date'', Str ''10-03-2024''), (''Type'', Str ''Credit''), 
       (''Narration'', Str ''cashback''), (''Amount'', Num 20)]]"

section \<open>The lookup order the specification words\<close>

text \<open>
  The specification has the resolver consult the oracle mapping for the raw token as
  given, then trimmed, then lower-cased. This is that order, to be compared with
  \<^const>\<open>mappedId_of\<close>, which is the order of the code.
\<close>

definition mappedId_spec :: "(string \<rightharpoonup> string) \<Rightarrow> string \<Rightarrow> string option" where
  "mappedId_spec aiMapping rawToken =
     (case lookupTruthy aiMapping rawToken of
        Some v \<Rightarrow> Some v
      | None \<Rightarrow>
          (case lookupTruthy aiMapping (trim rawToken) of
             Some v \<Rightarrow> Some v
           | None \<Rightarrow> lookupTruthy aiMapping (toLowerCase (trim rawToken))))"

text \<open>An oracle answer that has a key with surrounding blanks and the trimmed key.\<close>

definition paddedOracle :: "string \<rightharpoonup> string" where
  "paddedOracle = ['' kirana '' \<mapsto> ''c1'', ''kirana'' \<mapsto> ''c2'']"

section \<open>Dates of the calendar and of the host\<close>









section \<open>Verified properties\<close>

subsection \<open>Auxiliary facts\<close>

lemma find_SomeD: "find P xs = Some x \<Longrightarrow> x \<in> set xs \<and> P x"
  by (auto simp: find_Some_iff)

lemma fold_invariant:
  "P s \<Longrightarrow> (\<And>x s. P s \<Longrightarrow> P (f x s)) \<Longrightarrow> P (fold f xs s)"
  by (induction xs arbitrary: s) auto

lemma oracleHit_existing:
  "oracleHit ex ai t = Some i \<Longrightarrow> i \<in> id_cat ` set ex"
  by (auto simp: oracleHit_def split: option.splits if_splits dest!: find_SomeD)

text \<open>The three ways \<^const>\<open>resolveCategory\<close> can return.\<close>

lemma resolve_cases:
  assumes "resolveCategory rt ex ai st t = (r, st')"
  shows "(id_res r \<in> id_cat ` set ex \<and> st' = st)
       \<or> (\<exists>c. map_of (newCategoriesCreatedMap st) (toLowerCase (trim t)) = Some c
             \<and> id_res r = id_cat c \<and> st' = st)
       \<or> (\<exists>c. id_res r = id_cat c
             \<and> newCategoriesCreatedMap st' = newCategoriesCreatedMap st @ [(toLowerCase (trim t), c)]
             \<and> newExpenses st' = newExpenses st)"
  using assms
  by (auto simp: resolveCategory_def Let_def split: option.splits
           dest!: find_SomeD oracleHit_existing)

lemma resolve_newExpenses:
  "resolveCategory rt ex ai st t = (r, st') \<Longrightarrow> newExpenses st' = newExpenses st"
  by (auto simp: resolveCategory_def Let_def split: option.splits)

lemma resolve_map_mono:
  "resolveCategory rt ex ai st t = (r, st') \<Longrightarrow>
     set (newCategoriesCreatedMap st) \<subseteq> set (newCategoriesCreatedMap st')"
  by (auto simp: resolveCategory_def Let_def split: option.splits)

lemma resolve_id_known:
  "resolveCategory rt ex ai st t = (r, st') \<Longrightarrow> id_res r \<in> knownIds ex st'"
  by (drule resolve_cases) (force simp: knownIds_def dest!: map_of_SomeD)

lemma knownIds_mono:
  "set (newCategoriesCreatedMap st) \<subseteq> set (newCategoriesCreatedMap st') \<Longrightarrow>
     knownIds ex st \<subseteq> knownIds ex st'"
  by (auto simp: knownIds_def)

lemma resolve_catsKnown:
  "resolveCategory rt ex ai st t = (r, st') \<Longrightarrow> catsKnown ex st \<Longrightarrow> catsKnown ex st'"
  using knownIds_mono [OF resolve_map_mono] resolve_newExpenses
  unfolding catsKnown_def by (metis subsetD)

lemma push_catsKnown:
  "catsKnown ex st \<Longrightarrow> cid \<in> knownIds ex st \<Longrightarrow>
     catsKnown ex (pushExpense rt st amt desc cid dateStr nts)"
  by (auto simp: catsKnown_def pushExpense_def knownIds_def)

lemma processListRow_catsKnown:
  "catsKnown ex st \<Longrightarrow> catsKnown ex (processListRow rt ex ai src row st)"
  unfolding processListRow_def Let_def
  by (auto split: option.splits prod.splits
           intro!: push_catsKnown resolve_id_known
           dest: resolve_catsKnown find_SomeD simp: knownIds_def)

lemma processMatrixCell_catsKnown:
  "catsKnown ex st \<Longrightarrow> catsKnown ex (processMatrixCell rt ex ai row dateStr h st)"
  unfolding processMatrixCell_def Let_def
  by (auto split: option.splits prod.splits
           intro!: push_catsKnown resolve_id_known
           dest: resolve_catsKnown)

lemma processMatrixRow_catsKnown:
  "catsKnown ex st \<Longrightarrow> catsKnown ex (processMatrixRow rt ex ai dk hs row st)"
  unfolding processMatrixRow_def
  by (auto split: option.splits intro: fold_invariant processMatrixCell_catsKnown)

lemma emptySession_catsKnown: "catsKnown ex emptySession"
  by (simp add: catsKnown_def emptySession_def)

text \<open>The transformers with the exception, where they return, keep the invariant.\<close>

lemma resolveCategoryE_D:
  "resolveCategoryE rt ex a st t = Inr (r, st') \<Longrightarrow>
     resolveCategory rt ex (mappingOf a) st t = (r, st')"
  by (simp add: resolveCategoryE_def split: if_splits)

lemma forEachE_invariant:
  "forEachE f xs s = Inr s' \<Longrightarrow> P s \<Longrightarrow> (\<And>x s s'. P s \<Longrightarrow> f x s = Inr s' \<Longrightarrow> P s') \<Longrightarrow> P s'"
  by (induction xs arbitrary: s) (auto split: sum.splits)

lemma processListRowE_catsKnown:
  "processListRowE rt ex a src row st = Inr st' \<Longrightarrow> catsKnown ex st \<Longrightarrow> catsKnown ex st'"
  unfolding processListRowE_def Let_def
  by (auto split: option.splits prod.splits sum.splits if_splits
           intro!: push_catsKnown resolve_id_known
           dest: resolve_catsKnown find_SomeD dest!: resolveCategoryE_D simp: knownIds_def)

lemma processMatrixCellE_catsKnown:
  "processMatrixCellE rt ex a row dateStr h st = Inr st' \<Longrightarrow> catsKnown ex st \<Longrightarrow>
     catsKnown ex st'"
  unfolding processMatrixCellE_def Let_def
  by (auto split: prod.splits sum.splits if_splits
           intro!: push_catsKnown resolve_id_known
           dest: resolve_catsKnown dest!: resolveCategoryE_D)

lemma processMatrixRowE_catsKnown:
  "processMatrixRowE rt ex a dk hs row st = Inr st' \<Longrightarrow> catsKnown ex st \<Longrightarrow> catsKnown ex st'"
  unfolding processMatrixRowE_def
  by (auto split: option.splits if_splits
           elim: forEachE_invariant intro: processMatrixCellE_catsKnown)

lemma importList_catsKnown: "importList rt rawData ex = Inr st \<Longrightarrow> catsKnown ex st"
  unfolding importList_def
  by (auto split: prod.splits
           elim!: forEachE_invariant [where P = "catsKnown ex"]
           intro: processListRowE_catsKnown emptySession_catsKnown)

lemma importMatrix_catsKnown: "importMatrix rt rawData ex dk = Inr st \<Longrightarrow> catsKnown ex st"
  unfolding importMatrix_def Let_def
  by (auto elim!: forEachE_invariant [where P = "catsKnown ex"]
           intro: processMatrixRowE_catsKnown emptySession_catsKnown)

text \<open>
  For a mapping other than \<^verbatim>\<open>null\<close> nothing throws, and the transformers with the
  exception are the transformers over the mapping read from the JSON value.
\<close>

lemma resolveCategoryE_total:
  "a \<noteq> JNull \<Longrightarrow>
     resolveCategoryE rt ex a st t = Inr (resolveCategory rt ex (mappingOf a) st t)"
  by (simp add: resolveCategoryE_def)

lemma forEachE_total:
  "(\<And>x s. f x s = Inr (g x s)) \<Longrightarrow> forEachE f xs s = Inr (fold g xs s)"
  by (induction xs arbitrary: s) simp_all

lemma processListRowE_total:
  "a \<noteq> JNull \<Longrightarrow>
     processListRowE rt ex a src row st = Inr (processListRow rt ex (mappingOf a) src row st)"
  unfolding processListRowE_def processListRow_def Let_def
  by (auto simp: resolveCategoryE_total split: option.splits prod.splits)

lemma processMatrixCellE_total:
  "a \<noteq> JNull \<Longrightarrow>
     processMatrixCellE rt ex a row dateStr h st
       = Inr (processMatrixCell rt ex (mappingOf a) row dateStr h st)"
  unfolding processMatrixCellE_def processMatrixCell_def Let_def
  by (auto simp: resolveCategoryE_total split: prod.splits)

lemma processMatrixRowE_total:
  "a \<noteq> JNull \<Longrightarrow>
     processMatrixRowE rt ex a dk hs row st
       = Inr (processMatrixRow rt ex (mappingOf a) dk hs row st)"
  unfolding processMatrixRowE_def processMatrixRow_def
  by (auto simp: processMatrixCellE_total forEachE_total split: option.splits)

text \<open>The mapping read from the JSON value gives the oracle step of the JSON value.\<close>

lemma lookupTruthy_mappingOf:
  "lookupTruthy (mappingOf a) k =
     (case lookupTruthyJson a k of
        None \<Rightarrow> None
      | Some v \<Rightarrow> Some (case v of JStr str \<Rightarrow> str | _ \<Rightarrow> ''NEW''))"
  by (auto simp: lookupTruthy_def mappingOf_def lookupTruthyJson_def truthyJson_def
           split: option.splits json.splits if_splits)

lemma mappedId_mappingOf:
  "mappedId_of (mappingOf a) t =
     (case mappedIdJson a t of
        None \<Rightarrow> None
      | Some v \<Rightarrow> Some (case v of JStr str \<Rightarrow> str | _ \<Rightarrow> ''NEW''))"
  by (simp add: mappedId_of_def mappedIdJson_def lookupTruthy_mappingOf split: option.splits)

lemma oracleHit_mappingOf: "oracleHit ex (mappingOf a) t = oracleHitJson ex a t"
  by (simp add: oracleHit_def oracleHitJson_def mappedId_mappingOf
           split: option.splits json.splits)

lemma mappingOf_sampleReply: "mappingOf sampleReply = sampleOracle"
  by (rule ext)
     (simp add: mappingOf_def lookupTruthyJson_def getProp_def truthyJson_def
        sampleReply_def sampleOracle_def)

lemma finish_known:
  "catsKnown ex st \<Longrightarrow>
   \<forall>e \<in> set (expenses (finish st)).
     categoryId e \<in> id_cat ` set ex \<union> id_cat ` set (newCategories (finish st))"
  by (auto simp: catsKnown_def finish_def knownIds_def)

subsection \<open>C1: every category id of the result is known\<close>

text \<open>
  C1. For every import call that returns, every expense of the returned result carries a
  \<open>categoryId\<close> that is the id of a category in the caller-supplied
  \<open>existingCategories\<close> or the id of a category in the returned \<open>newCategories\<close>.
\<close>

theorem import_categoryIds_known:
  assumes "parseFile rt file existingCategories = Inr res"
  shows "\<forall>e \<in> set (expenses res).
           categoryId e \<in> id_cat ` set existingCategories \<union> id_cat ` set (newCategories res)"
proof (cases "file")
  case Unreadable
  with assms show ?thesis by (simp add: parseFile_def)
next
  case (Workbook rawData)
  have "res = \<lparr>expenses = [], newCategories = []\<rparr>
      \<or> (\<exists>dk st. importMatrix rt rawData existingCategories dk = Inr st \<and> res = finish st)
      \<or> (\<exists>st. importList rt rawData existingCategories = Inr st \<and> res = finish st)"
    using assms Workbook
    by (auto simp: parseFile_def settle_def split: if_splits option.splits sum.splits)
  then show ?thesis
    using finish_known [OF importList_catsKnown] finish_known [OF importMatrix_catsKnown]
    by (elim disjE exE conjE) simp_all
qed


theorem import_categoryIds_known_witness:
  "parseFile sampleRuntime
     (Workbook [[(''Date'', Str ''05-03-2024''), (''Description'', Str ''kirana store''),
                 (''Amount'', Num 500)]])
     sampleCategories
   = Inr \<lparr>expenses =
            [\<lparr>id_exp = ''uuid-1'', amount = Fin 500, description = ''kirana store'',
              categoryId = ''uuid-0'', date = ''2024-03-05'', notes_exp = Str []\<rparr>],
          newCategories =
            [\<lparr>id_cat = ''uuid-0'', name = ''Kirana Store'', color = ''#EF4444'',
              isCustom = True\<rparr>]\<rparr>
   \<and> ''uuid-0'' \<in> id_cat ` set sampleCategories
         \<union> id_cat ` set [\<lparr>id_cat = ''uuid-0'', name = ''Kirana Store'', color = ''#EF4444'',
                             isCustom = True\<rparr>]"
proof -
  have run: "parseFile sampleRuntime
     (Workbook [[(''Date'', Str ''05-03-2024''), (''Description'', Str ''kirana store''),
                 (''Amount'', Num 500)]])
     sampleCategories
   = Inr \<lparr>expenses =
            [\<lparr>id_exp = ''uuid-1'', amount = Fin 500, description = ''kirana store'',
              categoryId = ''uuid-0'', date = ''2024-03-05'', notes_exp = Str []\<rparr>],
          newCategories =
            [\<lparr>id_cat = ''uuid-0'', name = ''Kirana Store'', color = ''#EF4444'',
              isCustom = True\<rparr>]\<rparr>"
    by code_simp
  from import_categoryIds_known [OF run]
  have "''uuid-0'' \<in> id_cat ` set sampleCategories
         \<union> id_cat ` set [\<lparr>id_cat = ''uuid-0'', name = ''Kirana Store'', color = ''#EF4444'',
                             isCustom = True\<rparr>]"
    by simp
  with run show ?thesis by (rule conjI)
qed

subsection \<open>C2: repeated resolution of a token\<close>

lemma resolve_keeps_entry:
  "map_of (newCategoriesCreatedMap st) k = Some c \<Longrightarrow>
     map_of (newCategoriesCreatedMap (snd (resolveCategory rt ex ai st t))) k = Some c"
  by (auto simp: resolveCategory_def Let_def map_add_Some_iff split: option.splits)

lemma resolve_keeps_absent:
  "map_of (newCategoriesCreatedMap st) k = None \<Longrightarrow>
   find (\<lambda>c. toLowerCase (name c) = k) ex \<noteq> None \<Longrightarrow>
     map_of (newCategoriesCreatedMap (snd (resolveCategory rt ex ai st t))) k = None"
  by (auto simp: resolveCategory_def Let_def split: option.splits)

lemma later_keeps_entry:
  "later rt ex ai st st2 \<Longrightarrow> map_of (newCategoriesCreatedMap st) k = Some c \<Longrightarrow>
     map_of (newCategoriesCreatedMap st2) k = Some c"
  by (induction rule: later.induct) (auto simp: resolve_keeps_entry pushExpense_def)

lemma later_keeps_absent:
  "later rt ex ai st st2 \<Longrightarrow> map_of (newCategoriesCreatedMap st) k = None \<Longrightarrow>
   find (\<lambda>c. toLowerCase (name c) = k) ex \<noteq> None \<Longrightarrow>
     map_of (newCategoriesCreatedMap st2) k = None"
  by (induction rule: later.induct) (auto simp: resolve_keeps_absent pushExpense_def)

text \<open>The id a call returns when the oracle step misses, and when it hits.\<close>

lemma resolve_miss_id:
  assumes "oracleHit ex ai t = None"
  shows "id_res (fst (resolveCategory rt ex ai st t)) =
     (case map_of (newCategoriesCreatedMap st) (toLowerCase (trim t)) of
        Some c \<Rightarrow> id_cat c
      | None \<Rightarrow> (case find (\<lambda>c. toLowerCase (name c) = toLowerCase (trim t)) ex of
                   Some c \<Rightarrow> id_cat c
                 | None \<Rightarrow> uuidv4 rt (uuidCalls st)))"
  using assms by (auto simp: resolveCategory_def Let_def split: option.splits)

lemma resolve_hit_id:
  "oracleHit ex ai t = Some i \<Longrightarrow> id_res (fst (resolveCategory rt ex ai st t)) = i"
  by (simp add: resolveCategory_def Let_def)

lemma resolve_creates_entry:
  assumes "oracleHit ex ai t = None"
      and "map_of (newCategoriesCreatedMap st) (toLowerCase (trim t)) = None"
      and "find (\<lambda>c. toLowerCase (name c) = toLowerCase (trim t)) ex = None"
  shows "\<exists>c. map_of (newCategoriesCreatedMap (snd (resolveCategory rt ex ai st t)))
                (toLowerCase (trim t)) = Some c
             \<and> id_cat c = uuidv4 rt (uuidCalls st)"
  using assms by (auto simp: resolveCategory_def Let_def map_add_def split: option.splits)

text \<open>The row transformers move the session along these steps only.\<close>

lemma later_resolve_pair:
  "resolveCategory rt ex ai st t = (r, st') \<Longrightarrow> later rt ex ai st st'"
  using later_resolve [OF later_refl, of rt ex ai st t] by simp

lemma processListRow_later: "later rt ex ai st (processListRow rt ex ai src row st)"
  unfolding processListRow_def Let_def
  by (auto split: option.splits prod.splits
           intro!: later_push later_refl dest: later_resolve_pair)

lemma processMatrixCell_later:
  "later rt ex ai st0 st \<Longrightarrow> later rt ex ai st0 (processMatrixCell rt ex ai row dateStr h st)"
  unfolding processMatrixCell_def Let_def
  by (auto split: prod.splits intro!: later_push)
     (metis later_resolve snd_conv)

text \<open>
  C2, as amended. Within one session, let the token \<open>t1\<close> be resolved, then any number of
  further steps be taken, then the token \<open>t2\<close> be resolved. If the two tokens are equal
  after trimming and lower-casing and the oracle step gives the same outcome for both
  (which it does when \<open>t1 = t2\<close>, and when the oracle maps neither), the two calls return
  the same category id.
\<close>

theorem resolve_idempotent:
  assumes same: "toLowerCase (trim t1) = toLowerCase (trim t2)"
      and hits: "oracleHit ex ai t1 = oracleHit ex ai t2"
      and steps: "later rt ex ai (snd (resolveCategory rt ex ai st t1)) st2"
  shows "id_res (fst (resolveCategory rt ex ai st2 t2))
           = id_res (fst (resolveCategory rt ex ai st t1))"
proof (cases "oracleHit ex ai t1")
  case (Some i)
  then show ?thesis using hits by (simp add: resolve_hit_id)
next
  case None
  let ?k = "toLowerCase (trim t1)"
  let ?st1 = "snd (resolveCategory rt ex ai st t1)"
  have miss2: "oracleHit ex ai t2 = None" using None hits by simp
  show ?thesis
  proof (cases "map_of (newCategoriesCreatedMap st) ?k")
    case (Some c)
    then have "map_of (newCategoriesCreatedMap ?st1) ?k = Some c"
      by (rule resolve_keeps_entry)
    then have "map_of (newCategoriesCreatedMap st2) ?k = Some c"
      by (rule later_keeps_entry [OF steps])
    then show ?thesis
      using Some same by (simp add: resolve_miss_id [OF None] resolve_miss_id [OF miss2])
  next
    case absent: None
    show ?thesis
    proof (cases "find (\<lambda>c. toLowerCase (name c) = ?k) ex")
      case (Some c)
      then have "map_of (newCategoriesCreatedMap ?st1) ?k = None"
        using absent by (simp add: resolve_keeps_absent)
      then have "map_of (newCategoriesCreatedMap st2) ?k = None"
        using Some by (intro later_keeps_absent [OF steps]) simp_all
      then show ?thesis
        using Some absent same by (simp add: resolve_miss_id [OF None] resolve_miss_id [OF miss2])
    next
      case nomatch: None
      obtain c where c: "map_of (newCategoriesCreatedMap ?st1) ?k = Some c"
                        "id_cat c = uuidv4 rt (uuidCalls st)"
        using resolve_creates_entry [OF None absent nomatch] by blast
      have "map_of (newCategoriesCreatedMap st2) ?k = Some c"
        using c(1) by (rule later_keeps_entry [OF steps])
      then show ?thesis
        using c(2) nomatch absent same
        by (simp add: resolve_miss_id [OF None] resolve_miss_id [OF miss2])
    qed
  qed
qed

theorem resolve_idempotent_witness:
  "toLowerCase (trim ''kirana store'') = toLowerCase (trim '' Kirana Store'')
   \<and> oracleHit sampleCategories sampleOracle ''kirana store''
       = oracleHit sampleCategories sampleOracle '' Kirana Store''
   \<and> later sampleRuntime sampleCategories sampleOracle
       (snd (resolveCategory sampleRuntime sampleCategories sampleOracle emptySession
               ''kirana store''))
       (snd (resolveCategory sampleRuntime sampleCategories sampleOracle
               (snd (resolveCategory sampleRuntime sampleCategories sampleOracle emptySession
                       ''kirana store''))
               ''rent''))
   \<and> id_res (fst (resolveCategory sampleRuntime sampleCategories sampleOracle
                     (snd (resolveCategory sampleRuntime sampleCategories sampleOracle
                             (snd (resolveCategory sampleRuntime sampleCategories sampleOracle
                                     emptySession ''kirana store''))
                             ''rent''))
                     '' Kirana Store''))
       = id_res (fst (resolveCategory sampleRuntime sampleCategories sampleOracle emptySession
                        ''kirana store''))"
proof -
  have h1: "toLowerCase (trim ''kirana store'') = toLowerCase (trim '' Kirana Store'')"
    by code_simp
  have h2: "oracleHit sampleCategories sampleOracle ''kirana store''
              = oracleHit sampleCategories sampleOracle '' Kirana Store''"
    by code_simp
  have h3: "later sampleRuntime sampleCategories sampleOracle
       (snd (resolveCategory sampleRuntime sampleCategories sampleOracle emptySession
               ''kirana store''))
       (snd (resolveCategory sampleRuntime sampleCategories sampleOracle
               (snd (resolveCategory sampleRuntime sampleCategories sampleOracle emptySession
                       ''kirana store''))
               ''rent''))"
    by (rule later_resolve [OF later_refl])
  from resolve_idempotent [OF h1 h2 h3] h1 h2 h3 show ?thesis by blast
qed

text \<open>
  The claim as stated fails: the oracle maps \<open>Kirana\<close> to the existing category \<open>c2\<close> and
  knows nothing of \<open>kirana\<close>, so the first token resolves to \<open>c2\<close> and the second, equal
  to it but for case, to a newly created category. The same happens in a whole import
  whose category column holds the two spellings.
\<close>

lemma import_case_variants_differ:
  "map categoryId
     (case parseFile sampleRuntime
             (Workbook [[(''Category'', Str ''Kirana''), (''Description'', Str ''shop''),
                         (''Amount'', Num 100)],
                        [(''Category'', Str ''kirana''), (''Description'', Str ''shop''),
                         (''Amount'', Num 50)]])
             sampleCategories of
        Inl e \<Rightarrow> [] | Inr res \<Rightarrow> expenses res)
   = [''c2'', ''uuid-1'']"
  by code_simp

theorem resolve_idempotent_counterexample:
  "toLowerCase (trim ''Kirana'') = toLowerCase (trim ''kirana'')
   \<and> id_res (fst (resolveCategory sampleRuntime sampleCategories sampleOracle emptySession
                     ''Kirana'')) = ''c2''
   \<and> id_res (fst (resolveCategory sampleRuntime sampleCategories sampleOracle
                     (snd (resolveCategory sampleRuntime sampleCategories sampleOracle
                             emptySession ''Kirana''))
                     ''kirana'')) = ''uuid-0''"
  by code_simp

subsection \<open>C3: the import without the oracle\<close>

lemma dropWhile_idem: "dropWhile P (dropWhile P xs) = dropWhile P xs"
  by (metis dropWhile_eq_self_iff hd_dropWhile)

text \<open>The tokens sent to the oracle are trimmed, and trimming again changes nothing.\<close>

lemma trim_idem: "trim (trim s) = trim s"
proof -
  define xs where "xs = dropWhile isSpace s"
  define ys where "ys = rev (dropWhile isSpace (rev xs))"
  have split: "xs = ys @ rev (takeWhile isSpace (rev xs))"
    unfolding ys_def by (metis rev_append rev_rev_ident takeWhile_dropWhile_id)
  have front: "dropWhile isSpace ys = ys"
  proof (cases ys)
    case Nil
    then show ?thesis by simp
  next
    case (Cons y zs)
    then have "xs \<noteq> []" and "hd xs = y"
      using split
      by (metis append_is_Nil_conv list.distinct(1), metis hd_append2 list.distinct(1) list.sel(1))
    then have "\<not> isSpace y" unfolding xs_def by (metis hd_dropWhile)
    then show ?thesis using Cons by simp
  qed
  have "rev (dropWhile isSpace (rev ys)) = ys"
    unfolding ys_def by (simp add: dropWhile_idem)
  then show ?thesis
    unfolding trim_def using front by (simp add: xs_def ys_def)
qed

text \<open>
  Where the failure of the oracle is caught: no key, a request that throws, a response
  without text, a text that is not JSON. The mapping is then the empty object, as it is
  when the model answers with the empty object.
\<close>

lemma aiMappingStep_recovered:
  assumes "apiKey rt \<noteq> KeyPresent
           \<or> oracleReply rt (take 1000 tokens) ex \<in> {CallThrows, NoText, NotJson, Json (JObj [])}"
  shows "aiMappingStep rt tokens ex = JObj []"
  using assms
  by (auto simp: aiMappingStep_def mapImportCategories_def split: keyState.splits reply.splits)

lemma mappingOf_empty: "mappingOf (JObj []) = Map.empty"
  by (rule ext) (simp add: mappingOf_def lookupTruthyJson_def getProp_def)

lemma oracleHit_empty: "oracleHit ex Map.empty t = None"
  by (simp add: oracleHit_def mappedId_of_def lookupTruthy_def)

lemma resolve_without_oracle:
  assumes "resolveCategory rt ex Map.empty st t = (r, st')"
  shows "(\<not> isNew r \<and> (\<exists>c \<in> set ex. id_cat c = id_res r
                          \<and> toLowerCase (name c) = toLowerCase (trim t)))
       \<or> (isNew r \<and> (\<exists>c. (toLowerCase (trim t), c) \<in> set (newCategoriesCreatedMap st')
                          \<and> id_cat c = id_res r))"
proof (cases "map_of (newCategoriesCreatedMap st) (toLowerCase (trim t))")
  case (Some c)
  then show ?thesis
    using assms
    by (auto simp: resolveCategory_def Let_def oracleHit_empty dest!: map_of_SomeD)
next
  case absent: None
  show ?thesis
  proof (cases "find (\<lambda>c. toLowerCase (name c) = toLowerCase (trim t)) ex")
    case (Some c)
    then show ?thesis
      using assms absent
      by (auto simp: resolveCategory_def Let_def oracleHit_empty dest!: find_SomeD)
  next
    case None
    then show ?thesis
      using assms absent
      by (simp add: resolveCategory_def Let_def oracleHit_empty) fastforce
  qed
qed

text \<open>The import returns a result whenever the mapping is not \<^verbatim>\<open>null\<close>.\<close>

lemma importList_total:
  assumes "\<And>tokens. aiMappingStep rt tokens ex \<noteq> JNull"
  shows "\<exists>st. importList rt rawData ex = Inr st"
  unfolding importList_def
  by (auto split: prod.splits simp: processListRowE_total [OF assms] forEachE_total)

lemma importMatrix_total:
  assumes "\<And>tokens. aiMappingStep rt tokens ex \<noteq> JNull"
  shows "\<exists>st. importMatrix rt rawData ex dk = Inr st"
  unfolding importMatrix_def Let_def
  by (simp add: processMatrixRowE_total [OF assms] forEachE_total)

lemma parseFile_returns:
  assumes "\<And>tokens. aiMappingStep rt tokens ex \<noteq> JNull"
  shows "\<exists>res. parseFile rt (Workbook rawData) ex = Inr res"
  using importList_total [OF assms, of rawData] importMatrix_total [OF assms, of rawData]
  by (auto simp: parseFile_def settle_def split: option.splits) (metis sum.simps(6))+

text \<open>
  How far C3 holds. When the key is missing, the request throws, the response has no
  text, the text is not JSON or the answer is the empty object, the import of any decoded
  sheet returns a result, the mapping is empty, and every raw category token resolves to
  the id of an existing category of the same name, without regard to case, or to the id
  of a category in the session's map of newly created categories.
\<close>

lemma oracle_failure_recovered:
  assumes "\<And>tokens. apiKey rt \<noteq> KeyPresent
             \<or> oracleReply rt tokens ex \<in> {CallThrows, NoText, NotJson, Json (JObj [])}"
  shows "(\<exists>res. parseFile rt (Workbook rawData) ex = Inr res)
       \<and> mappingOf (aiMappingStep rt tokens ex) = Map.empty
       \<and> (\<exists>r st'. resolveCategoryE rt ex (aiMappingStep rt tokens ex) st (trim t) = Inr (r, st')
            \<and> ((\<not> isNew r \<and> (\<exists>c. c \<in> set ex \<and> id_cat c = id_res r
                                 \<and> toLowerCase (name c) = toLowerCase (trim t)))
               \<or> (isNew r \<and> (\<exists>c. (toLowerCase (trim t), c) \<in> set (newCategoriesCreatedMap st')
                                 \<and> id_cat c = id_res r))))"
proof -
  have empty: "aiMappingStep rt toks ex = JObj []" for toks
    using assms by (intro aiMappingStep_recovered) blast
  then have returns: "\<exists>res. parseFile rt (Workbook rawData) ex = Inr res"
    by (intro parseFile_returns) simp
  obtain r st' where res: "resolveCategory rt ex Map.empty st (trim t) = (r, st')"
    by (cases "resolveCategory rt ex Map.empty st (trim t)") blast
  from resolve_without_oracle [OF res] show ?thesis
    using empty res returns
    by (simp add: trim_idem mappingOf_empty resolveCategoryE_def) blast
qed

lemma oracle_failure_recovered_example:
  "parseFile failingRuntime
       (Workbook [[(''Category'', Str ''food''), (''Description'', Str ''lunch''),
                   (''Amount'', Num 120)],
                  [(''Category'', Str ''Rent''), (''Description'', Str ''flat''),
                   (''Amount'', Num 900)]])
       sampleCategories
     = Inr \<lparr>expenses =
              [\<lparr>id_exp = ''uuid-0'', amount = Fin 120, description = ''lunch'',
                categoryId = ''c1'', date = ''2023-11-14'', notes_exp = Str []\<rparr>,
               \<lparr>id_exp = ''uuid-2'', amount = Fin 900, description = ''flat'',
                categoryId = ''uuid-1'', date = ''2023-11-14'', notes_exp = Str []\<rparr>],
            newCategories =
              [\<lparr>id_cat = ''uuid-1'', name = ''Rent'', color = ''#EF4444'', isCustom = True\<rparr>]\<rparr>"
  by code_simp

text \<open>
  C3 at the failing input. The language model answers the request with the JSON text
  \<open>null\<close>, a malformed answer: \<^verbatim>\<open>JSON.parse\<close> returns \<^verbatim>\<open>null\<close> without throwing, so
  neither \<^verbatim>\<open>catch\<close> turns it into the empty mapping, and the import of a sheet of one row
  does not complete: the first call of the resolver throws a TypeError and the promise is
  rejected, although the token \<open>food\<close> names an existing category.
\<close>

theorem oracle_null_reply_rejects:
  "oracleReply nullReplyRuntime [''food''] sampleCategories = Json JNull
   \<and> aiMappingStep nullReplyRuntime [''food''] sampleCategories = JNull
   \<and> parseFile nullReplyRuntime
       (Workbook [[(''Category'', Str ''food''), (''Description'', Str ''lunch''),
                   (''Amount'', Num 120)]])
       sampleCategories
     = Inl TypeError"
  by code_simp

subsection \<open>C4: the quality test of the category column\<close>

lemma set_set_add: "set (set_add xs x) = insert x (set xs)"
  by (auto simp: set_add_def)

lemma distinct_set_add: "distinct xs \<Longrightarrow> distinct (set_add xs x)"
  by (auto simp: set_add_def)

lemma collect_fold_set:
  "set (fold (\<lambda>row acc. case getVal row keys of
                        None \<Rightarrow> acc
                      | Some v \<Rightarrow> if truthy v then set_add acc (trim (String_of rt v)) else acc)
          rows acc0)
   = set acc0 \<union> {trim (String_of rt v) |row v. row \<in> set rows \<and> getVal row keys = Some v \<and> truthy v}"
proof (induction rows arbitrary: acc0)
  case Nil
  then show ?case by simp
next
  case (Cons row rows)
  show ?case
    by (cases "getVal row keys") (auto simp: Cons.IH set_set_add)
qed

lemma collect_fold_distinct:
  "distinct acc0 \<Longrightarrow>
   distinct (fold (\<lambda>row acc. case getVal row keys of
                        None \<Rightarrow> acc
                      | Some v \<Rightarrow> if truthy v then set_add acc (trim (String_of rt v)) else acc)
          rows acc0)"
  by (induction rows arbitrary: acc0) (auto simp: distinct_set_add split: option.splits)

lemma set_collectValues:
  "set (collectValues rt rawData keys)
     = {trim (String_of rt v) |row v. row \<in> set rawData \<and> getVal row keys = Some v \<and> truthy v}"
  unfolding collectValues_def by (simp add: collect_fold_set)

lemma distinct_collectValues: "distinct (collectValues rt rawData keys)"
  unfolding collectValues_def by (simp add: collect_fold_distinct)

lemma genericCount_card:
  "distinct xs \<Longrightarrow> genericCount xs = card {i \<in> set xs. toLowerCase i \<in> set genericTerms}"
  unfolding genericCount_def by (metis distinct_filter distinct_card set_filter)

lemma no_column_no_values:
  assumes "\<forall>row \<in> set rawData. getVal row keys = None"
  shows "collectValues rt rawData keys = []"
proof -
  have "set (collectValues rt rawData keys) = {}"
    unfolding set_collectValues using assms by auto
  then show ?thesis by simp
qed

text \<open>
  C4, as amended. In list mode the category column is rejected, and the distinct values
  of the description column become the category signal, if and only if the category
  column yields no value at all, or the share of generic terms among its distinct values
  exceeds one half, or it has fewer than three distinct values while the sheet has more
  than five rows. The distinct values are the trimmed string forms of the non-empty
  cells under the first category alias that has a header; a generic term is a value whose
  lower-cased form is in the fixed set. A sheet with no category column yields no value;
  so does a sheet whose category cells are all empty. A category column whose distinct
  values are exactly Debit and Credit, in a sheet of ten rows, is rejected.
\<close>

theorem category_quality_rule:
  defines "cats \<equiv> \<lambda>rt rawData. collectValues rt rawData categoryAliases"
  shows "(fst (detectListSource rt rawData) = description_source \<longleftrightarrow>
            cats rt rawData = []
            \<or> rat_of_nat (genericCount (cats rt rawData)) / rat_of_nat (length (cats rt rawData)) > 1 / 2
            \<or> (length (cats rt rawData) < 3 \<and> length rawData > 5))
       \<and> (fst (detectListSource rt rawData) = description_source \<longrightarrow>
            snd (detectListSource rt rawData) = collectValues rt rawData descriptionAliases)
       \<and> (fst (detectListSource rt rawData) \<noteq> description_source \<longrightarrow>
            detectListSource rt rawData = (explicit_category, cats rt rawData))
       \<and> set (cats rt rawData)
           = {trim (String_of rt v) |row v.
                row \<in> set rawData \<and> getVal row categoryAliases = Some v \<and> truthy v}
       \<and> length (cats rt rawData) = card (set (cats rt rawData))
       \<and> genericCount (cats rt rawData)
           = card {i \<in> set (cats rt rawData). toLowerCase i \<in> set genericTerms}
       \<and> ((\<forall>row \<in> set rawData. getVal row categoryAliases = None) \<longrightarrow> cats rt rawData = [])
       \<and> (set (cats rt rawData) = {''Debit'', ''Credit''} \<and> length rawData = 10 \<longrightarrow>
            fst (detectListSource rt rawData) = description_source)"
proof -
  let ?c = "collectValues rt rawData categoryAliases"
  have d: "distinct ?c" by (rule distinct_collectValues)
  have iff: "fst (detectListSource rt rawData) = description_source \<longleftrightarrow>
            ?c = [] \<or> rat_of_nat (genericCount ?c) / rat_of_nat (length ?c) > 1 / 2
            \<or> (length ?c < 3 \<and> length rawData > 5)"
    by (auto simp: detectListSource_def shouldUseDescription_def)
  have len: "length ?c = card (set ?c)" using d by (simp add: distinct_card)
  have dc: "set ?c = {''Debit'', ''Credit''} \<and> length rawData = 10 \<longrightarrow>
            fst (detectListSource rt rawData) = description_source"
  proof
    assume a: "set ?c = {''Debit'', ''Credit''} \<and> length rawData = 10"
    then have "length ?c = 2" using len by simp
    with a show "fst (detectListSource rt rawData) = description_source"
      using iff by simp
  qed
  show ?thesis
    unfolding cats_def
    using iff len dc genericCount_card [OF d] set_collectValues [of rt rawData categoryAliases]
      no_column_no_values [of rawData categoryAliases rt]
    by (auto simp: detectListSource_def)
qed

theorem category_quality_rule_witness:
  "set (collectValues sampleRuntime debitCreditSheet categoryAliases) = {''Debit'', ''Credit''}
   \<and> length debitCreditSheet = 10
   \<and> fst (detectListSource sampleRuntime debitCreditSheet) = description_source"
proof -
  have "collectValues sampleRuntime debitCreditSheet categoryAliases = [''Debit'', ''Credit'']"
    by code_simp
  then have h1: "set (collectValues sampleRuntime debitCreditSheet categoryAliases)
                   = {''Debit'', ''Credit''}"
    by simp
  have h2: "length debitCreditSheet = 10"
    by (simp add: debitCreditSheet_def)
  from category_quality_rule [of sampleRuntime debitCreditSheet] h1 h2
  have "fst (detectListSource sampleRuntime debitCreditSheet) = description_source"
    by blast
  with h1 h2 show ?thesis by blast
qed

text \<open>
  The claim as stated fails on a sheet of one row that has a category column with an
  empty cell: the column exists, it has no distinct value (so no share of generic terms
  above one half) and the sheet has no more than five rows, yet the description column
  is used.
\<close>

theorem category_quality_rule_counterexample:
  "getVal [(''Category'', Str ''''), (''Description'', Str ''Lunch''), (''Amount'', Num 100)]
     categoryAliases = Some (Str '''')
   \<and> collectValues sampleRuntime
        [[(''Category'', Str ''''), (''Description'', Str ''Lunch''), (''Amount'', Num 100)]]
        categoryAliases = []
   \<and> length [[(''Category'', Str ''''), (''Description'', Str ''Lunch''), (''Amount'', Num 100)]] = 1
   \<and> detectListSource sampleRuntime
        [[(''Category'', Str ''''), (''Description'', Str ''Lunch''), (''Amount'', Num 100)]]
       = (description_source, [''Lunch''])"
  by code_simp

subsection \<open>C5: which header an alias list reads\<close>

lemma getVal_none:
  "list_all (\<lambda>k. find (\<lambda>h. toLowerCase h = toLowerCase k) (map fst row) = None) keys \<Longrightarrow>
     getVal row keys = None"
  by (induction keys) simp_all

lemma getVal_skip_absent:
  "list_all (\<lambda>k. find (\<lambda>h. toLowerCase h = toLowerCase k) (map fst row) = None) before \<Longrightarrow>
     getVal row (before @ keys) = getVal row keys"
  by (induction before) simp_all


lemma rowAmount_empty: "getVal row amountAliases = Some (Str []) \<Longrightarrow> rowAmount rt row = None"
  by (simp add: rowAmount_def)

lemma processListRow_dropped:
  "rowAmount rt row = None \<Longrightarrow> processListRow rt ex ai src row st = st"
  by (simp add: processListRow_def)


text \<open>
  C5, as amended. In list mode each field is read with \<^const>\<open>getVal\<close> over its alias list
  (\<^const>\<open>amountAliases\<close> for the amount, \<^const>\<open>descriptionAliases\<close> for the description),
  and \<^const>\<open>getVal\<close> returns the cell under the first alias, in list order, that has a
  header in the row (compared without regard to case), whether that cell is populated or
  not. An empty cell under that header is not skipped in favour of a later alias: for
  the amount the row is dropped, for the description the default text is used.
\<close>

theorem getVal_first_present:
  assumes absent: "list_all (\<lambda>k. find (\<lambda>h. toLowerCase h = toLowerCase k) (map fst row) = None)
                     before"
      and present: "find (\<lambda>h. toLowerCase h = toLowerCase key) (map fst row) = Some header"
      and nonempty: "header \<noteq> []"
  shows "getVal row (before @ key # after) = map_of row header
       \<and> (\<exists>v. map_of row header = Some v)
       \<and> (before @ key # after = amountAliases \<and> map_of row header = Some (Str []) \<longrightarrow>
            processListRow rt ex ai src row st = st)
       \<and> (before @ key # after = descriptionAliases \<and> map_of row header = Some (Str []) \<longrightarrow>
            rowDescription row = Str ''Imported Expense'')"
proof -
  have "getVal row (key # after) = map_of row header"
    using present nonempty by simp
  then have first: "getVal row (before @ key # after) = map_of row header"
    using absent by (simp add: getVal_skip_absent)
  have "header \<in> fst ` set row"
    using present by (auto dest!: find_SomeD)
  then have some: "\<exists>v. map_of row header = Some v"
    by (metis domD dom_map_of_conv_image_fst)
  have amt: "before @ key # after = amountAliases \<and> map_of row header = Some (Str []) \<longrightarrow>
               processListRow rt ex ai src row st = st"
    using first by (auto simp: rowAmount_empty processListRow_dropped)
  have desc: "before @ key # after = descriptionAliases \<and> map_of row header = Some (Str []) \<longrightarrow>
               rowDescription row = Str ''Imported Expense''"
    using first by (auto simp: rowDescription_def truthy_def)
  from first some amt desc show ?thesis by blast
qed

theorem getVal_first_present_witness:
  "getVal [(''COST'', Str []), (''Value'', Num 7)]
     ([''amount'', ''amt''] @ ''cost'' # [''price'', ''debit'', ''spending'', ''value''])
     = map_of [(''COST'', Str []), (''Value'', Num 7)] ''COST''
   \<and> processListRow sampleRuntime sampleCategories sampleOracle explicit_category
        [(''COST'', Str []), (''Value'', Num 7)] emptySession = emptySession"
proof -
  have h1: "list_all (\<lambda>k. find (\<lambda>h. toLowerCase h = toLowerCase k)
                            (map fst [(''COST'', Str []), (''Value'', Num 7)]) = None)
              [''amount'', ''amt'']"
    by code_simp
  have h2: "find (\<lambda>h. toLowerCase h = toLowerCase ''cost'')
              (map fst [(''COST'', Str []), (''Value'', Num 7)]) = Some ''COST''"
    by code_simp
  have h3: "''COST'' \<noteq> []" by simp
  have h4: "[''amount'', ''amt''] @ ''cost'' # [''price'', ''debit'', ''spending'', ''value'']
              = amountAliases"
    by (simp add: amountAliases_def)
  have h5: "map_of [(''COST'', Str []), (''Value'', Num 7)] ''COST'' = Some (Str [])"
    by simp
  from getVal_first_present [OF h1 h2 h3] h4 h5 show ?thesis by blast
qed

text \<open>
  The claim as stated fails. In the first row the header Amount is present with an empty
  cell and the header Cost holds 50: the amount is read from Amount and the row is
  dropped. In the second row Description is empty and Details holds a text: the
  description is the default, not the text under Details.
\<close>

theorem getVal_first_present_counterexample:
  "getVal [(''Amount'', Str ''''), (''Cost'', Num 50), (''Description'', Str ''Lunch'')]
     amountAliases = Some (Str '''')
   \<and> newExpenses (processListRow sampleRuntime sampleCategories Map.empty description_source
        [(''Amount'', Str ''''), (''Cost'', Num 50), (''Description'', Str ''Lunch'')]
        emptySession) = []
   \<and> map description (newExpenses
        (processListRow sampleRuntime sampleCategories Map.empty description_source
           [(''Amount'', Num 50), (''Description'', Str ''''), (''Details'', Str ''Lunch'')]
           emptySession)) = [''Imported Expense'']"
  by code_simp

subsection \<open>C6: rows without a usable amount\<close>




subsection \<open>C10: thousands separators\<close>
















subsection \<open>C8: the oracle step of the resolver\<close>

lemma find_id_iff: "find (\<lambda>c. id_cat c = v) ex = None \<longleftrightarrow> v \<notin> id_cat ` set ex"
  by (auto simp: find_None_iff)

lemma oracleHit_iff:
  "oracleHit ex ai t =
     (case mappedId_of ai t of
        None \<Rightarrow> None
      | Some v \<Rightarrow> if v \<noteq> ''NEW'' \<and> v \<in> id_cat ` set ex then Some v else None)"
  by (simp add: oracleHit_def find_id_iff split: option.splits)

lemma resolve_hit:
  "oracleHit ex ai t = Some v \<Longrightarrow>
     resolveCategory rt ex ai st t
       = (\<lparr>id_res = v, originalName = Some (trim t), isNew = False\<rparr>, st)"
  by (simp add: resolveCategory_def)

lemma resolve_no_hit:
  "oracleHit ex ai t = None \<Longrightarrow>
     resolveCategory rt ex ai st t = resolveCategory rt ex Map.empty st t"
  by (simp add: resolveCategory_def oracleHit_empty)

text \<open>
  C8, as amended. The resolver consults the oracle mapping for the trimmed token, then
  for the lower-cased trimmed token, then for the raw token as given, and takes the first
  of these that has a non-empty value. It returns that value with \<open>isNew = False\<close>, and
  leaves the session unchanged, when the value is not \<open>NEW\<close> and is the id of an
  existing category. When there is no such value, or it is \<open>NEW\<close>, or it is not the id
  of an existing category, the call behaves as with an empty mapping: resolution falls
  through to the later steps.
\<close>

theorem oracle_lookup_rule:
  "(lookupTruthy ai (trim t) = Some v \<longrightarrow> mappedId_of ai t = Some v)
   \<and> (lookupTruthy ai (trim t) = None \<and> lookupTruthy ai (toLowerCase (trim t)) = Some v
        \<longrightarrow> mappedId_of ai t = Some v)
   \<and> (lookupTruthy ai (trim t) = None \<and> lookupTruthy ai (toLowerCase (trim t)) = None
        \<longrightarrow> mappedId_of ai t = lookupTruthy ai t)
   \<and> (mappedId_of ai t = Some v \<and> v \<noteq> ''NEW'' \<and> v \<in> id_cat ` set ex
        \<longrightarrow> resolveCategory rt ex ai st t
              = (\<lparr>id_res = v, originalName = Some (trim t), isNew = False\<rparr>, st))
   \<and> (mappedId_of ai t = None \<or> mappedId_of ai t = Some ''NEW''
        \<or> (mappedId_of ai t = Some v \<and> v \<notin> id_cat ` set ex)
        \<longrightarrow> resolveCategory rt ex ai st t = resolveCategory rt ex Map.empty st t)"
proof -
  have hit: "mappedId_of ai t = Some v \<and> v \<noteq> ''NEW'' \<and> v \<in> id_cat ` set ex
        \<longrightarrow> resolveCategory rt ex ai st t
              = (\<lparr>id_res = v, originalName = Some (trim t), isNew = False\<rparr>, st)"
    by (auto simp: oracleHit_iff intro!: resolve_hit)
  have "oracleHit ex ai t = None"
    if "mappedId_of ai t = None \<or> mappedId_of ai t = Some ''NEW''
        \<or> (mappedId_of ai t = Some v \<and> v \<notin> id_cat ` set ex)"
    using that by (auto simp: oracleHit_iff)
  then have miss: "mappedId_of ai t = None \<or> mappedId_of ai t = Some ''NEW''
        \<or> (mappedId_of ai t = Some v \<and> v \<notin> id_cat ` set ex)
        \<longrightarrow> resolveCategory rt ex ai st t = resolveCategory rt ex Map.empty st t"
    using resolve_no_hit by blast
  show ?thesis
    using hit miss by (simp add: mappedId_of_def)
qed

theorem oracle_lookup_rule_witness:
  "lookupTruthy paddedOracle (trim '' kirana '') = Some ''c2''
   \<and> ''c2'' \<in> id_cat ` set sampleCategories
   \<and> mappedId_of paddedOracle '' kirana '' = Some ''c2''
   \<and> resolveCategory sampleRuntime sampleCategories paddedOracle emptySession '' kirana ''
       = (\<lparr>id_res = ''c2'', originalName = Some (trim '' kirana ''), isNew = False\<rparr>,
          emptySession)"
proof -
  have h1: "lookupTruthy paddedOracle (trim '' kirana '') = Some ''c2''"
    by code_simp
  have h2: "''c2'' \<in> id_cat ` set sampleCategories"
    by (simp add: sampleCategories_def)
  have h3: "''c2'' \<noteq> ''NEW''"
    by simp
  from oracle_lookup_rule
         [where ai = paddedOracle and t = "'' kirana ''" and v = "''c2''"
            and ex = sampleCategories and rt = sampleRuntime and st = emptySession]
       h1 h2 h3
  show ?thesis by blast
qed

text \<open>
  The claim as stated fails on the order: the raw token \<open>" kirana "\<close> is itself a key of
  the mapping (to the existing category \<open>c1\<close>), so the order of the specification gives
  \<open>c1\<close>; the code asks for the trimmed token first and returns \<open>c2\<close>.
\<close>

theorem oracle_lookup_rule_counterexample:
  "mappedId_spec paddedOracle '' kirana '' = Some ''c1''
   \<and> find (\<lambda>c. id_cat c = ''c1'') sampleCategories
       = Some \<lparr>id_cat = ''c1'', name = ''Food'', color = ''#EF4444'', isCustom = False\<rparr>
   \<and> id_res (fst (resolveCategory sampleRuntime sampleCategories paddedOracle emptySession
                     '' kirana '')) = ''c2''"
  by code_simp

subsection \<open>C9: the raw token appended to the description\<close>

text \<open>
  What the list path does: with the category column as the source, a token that the
  oracle mapped is appended whenever the mapped category has a name and the description
  does not contain the token; the name of the category is not compared with the token.
  With the description as the source nothing is appended.
\<close>

lemma listDescription_appends:
  assumes "mappedByOracle result"
      and "find (\<lambda>c. id_cat c = id_res result) ex = Some c"
      and "name c \<noteq> []"
      and "\<not> includes_str (toLowerCase (String_of rt desc)) (toLowerCase (String_of rt raw))"
  shows "listDescription rt ex explicit_category result desc raw
           = String_of rt desc @ '' ('' @ String_of rt raw @ '')''"
  using assms by (simp add: listDescription_def)

lemma listDescription_description_source:
  "listDescription rt ex description_source result desc raw = String_of rt desc"
  by (simp add: listDescription_def)

text \<open>The matrix path does compare the name of the mapped category with the header.\<close>

lemma matrixDescription_same_name:
  assumes "find (\<lambda>c. id_cat c = id_res result) ex = Some c"
      and "toLowerCase (name c) = toLowerCase h"
  shows "matrixDescription ex result h = toTitleCase h @ '' Expense''"
  using assms by (simp add: matrixDescription_def)

text \<open>
  C9 at the failing input. The category column is the source, the oracle maps the token
  \<open>Food\<close> to the existing category \<open>c1\<close>, whose name is \<open>Food\<close>, and the description
  \<open>Lunch\<close> does not contain the token: the code appends the token although the name of
  the category does not differ from it.
\<close>

theorem list_description_appends_same_name:
  "map name (filter (\<lambda>c. id_cat c = ''c1'') sampleCategories) = [''Food'']
   \<and> parseFile sampleRuntime
       (Workbook [[(''Category'', Str ''Food''), (''Description'', Str ''Lunch''),
                   (''Amount'', Num 100)]])
       sampleCategories
     = Inr \<lparr>expenses =
              [\<lparr>id_exp = ''uuid-0'', amount = Fin 100, description = ''Lunch (Food)'',
                categoryId = ''c1'', date = ''2023-11-14'', notes_exp = Str []\<rparr>],
            newCategories = []\<rparr>"
  by code_simp

subsection \<open>C7: date parsing\<close>





















end
